theory Spec2Isabelle
  imports Main "HOL-Library.Word"
begin

section \<open>clientv3/kv.go: the key-value client and its retry loop\<close>

text \<open>
  The file under verification is \<^verbatim>\<open>clientv3/kv.go\<close>. Its functions talk to three
  collaborators that live outside it: the generated RPC stub (\<^verbatim>\<open>pb.KVClient\<close>),
  the client's connection pool (\<^verbatim>\<open>c.retryConnection\<close>, \<^verbatim>\<open>c.ActiveConnection\<close>)
  and the error classifier \<^verbatim>\<open>isRPCError\<close>. They are parameters of the model
  (the record \<open>env\<close>), acting on an external state \<open>'w\<close>. Every call that leaves
  the file, every access to a field of the \<^verbatim>\<open>kv\<close> struct and every operation on
  its mutex is appended to a log of events, so that "how many RPC attempts", "was
  rotation started" and "was the lock held" are questions about a list.
\<close>

subsection \<open>Wire types\<close>

type_synonym bytes = string
type_synonym int64 = "64 word"
type_synonym int32 = "32 word"

text \<open>\<^verbatim>\<open>*grpc.ClientConn\<close>: a connection handle, identified by a number.\<close>

datatype ClientConn = ClientConn nat

text \<open>
  \<^verbatim>\<open>pb.KVClient\<close>: the only way the file makes a stub is \<^verbatim>\<open>pb.NewKVClient(conn)\<close>,
  which binds the stub to the connection it is given.
\<close>

datatype KVClient = NewKVClient ClientConn

text \<open>\<^verbatim>\<open>context.Context\<close> is handed through to the stub and never inspected.\<close>

datatype Context = Context nat

text \<open>A Go \<^verbatim>\<open>error\<close> value that is not nil. \<^verbatim>\<open>nil\<close> is \<open>None\<close> of \<open>error option\<close>.\<close>

datatype error = Error string

record RangeRequest =
  Range_Key :: bytes
  Range_RangeEnd :: bytes
  Range_Limit :: int64
  Range_Revision :: int64
  Range_SortOrder :: int32
  Range_SortTarget :: int32

record PutRequest =
  Put_Key :: bytes
  Put_Value :: bytes
  Put_Lease :: int64

record DeleteRangeRequest =
  DeleteRange_Key :: bytes
  DeleteRange_RangeEnd :: bytes

record CompactionRequest =
  Compaction_Revision :: int64

text \<open>The replies are opaque to this file; a number stands for the payload.\<close>

datatype RangeResponse = RangeResponse nat
datatype PutResponse = PutResponse nat
datatype DeleteRangeResponse = DeleteRangeResponse nat
datatype TxnResponse = TxnResponse nat
datatype CompactionResponse = CompactionResponse nat

text \<open>
  \<^verbatim>\<open>pb.ResponseUnion\<close> with its one-of field \<^verbatim>\<open>Response\<close>: one constructor for
  each wrapper type \<^verbatim>\<open>pb.ResponseUnion_ResponseRange\<close>, ... of the generated code.
\<close>

datatype ResponseUnion =
    ResponseUnion_ResponseRange RangeResponse
  | ResponseUnion_ResponsePut PutResponse
  | ResponseUnion_ResponseDeleteRange DeleteRangeResponse
  | ResponseUnion_ResponseTxn TxnResponse

text \<open>
  Modelled from the spec: the generated getters \<^verbatim>\<open>GetResponsePut\<close>,
  \<^verbatim>\<open>GetResponseRange\<close> and \<^verbatim>\<open>GetResponseDeleteRange\<close> are not in
  \<^verbatim>\<open>kv.go\<close>. "The caller unwraps the variant matching the originating kind": a
  getter returns the payload of its own variant and nil for any other variant and for a
  nil receiver.
\<close>

fun GetResponsePut :: "ResponseUnion option \<Rightarrow> PutResponse option" where
  "GetResponsePut (Some (ResponseUnion_ResponsePut x)) = Some x"
| "GetResponsePut _ = None"

fun GetResponseRange :: "ResponseUnion option \<Rightarrow> RangeResponse option" where
  "GetResponseRange (Some (ResponseUnion_ResponseRange x)) = Some x"
| "GetResponseRange _ = None"

fun GetResponseDeleteRange :: "ResponseUnion option \<Rightarrow> DeleteRangeResponse option" where
  "GetResponseDeleteRange (Some (ResponseUnion_ResponseDeleteRange x)) = Some x"
| "GetResponseDeleteRange _ = None"

subsection \<open>The operation descriptor\<close>

text \<open>
  Modelled from the spec: the type \<^verbatim>\<open>Op\<close>, its kinds, \<^verbatim>\<open>isWrite\<close>, the
  constructors \<^verbatim>\<open>OpPut\<close>, \<^verbatim>\<open>OpGet\<close>, \<^verbatim>\<open>OpDelete\<close> and the options are
  not in \<^verbatim>\<open>kv.go\<close>, which only reads the fields \<^verbatim>\<open>t\<close>, \<^verbatim>\<open>key\<close>,
  \<^verbatim>\<open>end\<close>, \<^verbatim>\<open>limit\<close>, \<^verbatim>\<open>rev\<close>, \<^verbatim>\<open>sort\<close>, \<^verbatim>\<open>val\<close> and
  \<^verbatim>\<open>leaseID\<close>. The spec gives the kind as the enum {Range, Put, DeleteRange, Txn}.
\<close>

datatype opType = tRange | tPut | tDeleteRange | tTxn

text \<open>
  The sort codes are Go \<^verbatim>\<open>int\<close>s (64 bits) and the lease id is an \<^verbatim>\<open>int64\<close>.
  \<^verbatim>\<open>do\<close> converts the sort codes to the wire's enum, an \<^verbatim>\<open>int32\<close>, which in Go
  keeps the low 32 bits (\<open>ucast\<close>); \<^verbatim>\<open>int64(op.leaseID)\<close> changes nothing.
\<close>

record SortOption =
  Target :: int64
  Order :: int64

record Op =
  op_t :: opType
  op_key :: bytes
  op_end :: bytes
  op_limit :: int64
  op_rev :: int64
  op_sort :: "SortOption option"
  op_val :: bytes
  op_leaseID :: int64

text \<open>
  Modelled from the spec: "a write operation (Put, DeleteRange, Txn ...)", "a read
  operation (Range)".
\<close>

fun isWrite :: "Op \<Rightarrow> bool" where
  "isWrite op = (op_t op \<noteq> tRange)"

text \<open>
  Modelled from the spec (section 4.1): each option changes only the field it owns, the
  options are applied in call order, and no option changes the kind.
\<close>

datatype OpOption =
    WithRange bytes
  | WithRev int64
  | WithLimit int64
  | WithSort int64 int64
  | WithLease int64

fun applyOpt :: "OpOption \<Rightarrow> Op \<Rightarrow> Op" where
  "applyOpt (WithRange e) op = op\<lparr>op_end := e\<rparr>"
| "applyOpt (WithRev r) op = op\<lparr>op_rev := r\<rparr>"
| "applyOpt (WithLimit n) op = op\<lparr>op_limit := n\<rparr>"
| "applyOpt (WithSort tg ord) op = op\<lparr>op_sort := Some \<lparr>Target = tg, Order = ord\<rparr>\<rparr>"
| "applyOpt (WithLease l) op = op\<lparr>op_leaseID := l\<rparr>"

definition applyOpts :: "OpOption list \<Rightarrow> Op \<Rightarrow> Op" where
  "applyOpts opts op = fold applyOpt opts op"

definition zeroOp :: "opType \<Rightarrow> Op" where
  "zeroOp k = \<lparr>op_t = k, op_key = [], op_end = [], op_limit = 0, op_rev = 0,
     op_sort = None, op_val = [], op_leaseID = 0\<rparr>"

definition OpGet :: "bytes \<Rightarrow> OpOption list \<Rightarrow> Op" where
  "OpGet key opts = applyOpts opts ((zeroOp tRange)\<lparr>op_key := key\<rparr>)"

definition OpPut :: "bytes \<Rightarrow> bytes \<Rightarrow> OpOption list \<Rightarrow> Op" where
  "OpPut key val opts = applyOpts opts ((zeroOp tPut)\<lparr>op_key := key, op_val := val\<rparr>)"

definition OpDelete :: "bytes \<Rightarrow> OpOption list \<Rightarrow> Op" where
  "OpDelete key opts = applyOpts opts ((zeroOp tDeleteRange)\<lparr>op_key := key\<rparr>)"

subsection \<open>Events, collaborators and the state of a kv\<close>

datatype field = F_conn | F_remote

datatype request =
    Req_Range RangeRequest
  | Req_Put PutRequest
  | Req_DeleteRange DeleteRangeRequest
  | Req_Compact CompactionRequest

text \<open>
  What a call of this file does that can be seen from outside it:
  \<^item> \<open>Lock\<close>, \<open>Unlock\<close>: \<^verbatim>\<open>kv.mu.Lock()\<close>, \<^verbatim>\<open>kv.mu.Unlock()\<close>;
  \<^item> \<open>Read f\<close>, \<open>Write f\<close>: a read or a write of the field \<^verbatim>\<open>kv.conn\<close> or
    \<^verbatim>\<open>kv.remote\<close>;
  \<^item> \<open>RPC stub r out\<close>: one invocation of a method of the stub with request \<open>r\<close>;
    \<open>out\<close> is the error it returned, if any;
  \<^item> \<open>RetryConnection c e out\<close>: one call \<^verbatim>\<open>kv.c.retryConnection(c, e)\<close> and
    what it returned;
  \<^item> \<open>Go_switchRemote e\<close>: the statement \<^verbatim>\<open>go kv.switchRemote(e)\<close>, which starts
    a goroutine and does not wait for it.
\<close>

datatype event =
    Lock
  | Unlock
  | Read field
  | Write field
  | RPC KVClient request "error option"
  | RetryConnection ClientConn error "error + ClientConn"
  | Go_switchRemote error

text \<open>
  The collaborators. Each takes the external state and returns the new one. A stub method
  returns a reply or an error, as the generated gRPC code does. \<open>ActiveConnection\<close> reads
  the client's current connection.
\<close>

record 'w env =
  isRPCError :: "error \<Rightarrow> bool"
  stub_Range :: "KVClient \<Rightarrow> Context \<Rightarrow> RangeRequest \<Rightarrow> 'w \<Rightarrow> (error + RangeResponse) \<times> 'w"
  stub_Put :: "KVClient \<Rightarrow> Context \<Rightarrow> PutRequest \<Rightarrow> 'w \<Rightarrow> (error + PutResponse) \<times> 'w"
  stub_DeleteRange ::
    "KVClient \<Rightarrow> Context \<Rightarrow> DeleteRangeRequest \<Rightarrow> 'w \<Rightarrow> (error + DeleteRangeResponse) \<times> 'w"
  stub_Compact ::
    "KVClient \<Rightarrow> Context \<Rightarrow> CompactionRequest \<Rightarrow> 'w \<Rightarrow> (error + CompactionResponse) \<times> 'w"
  retryConnection :: "ClientConn \<Rightarrow> error \<Rightarrow> 'w \<Rightarrow> (error + ClientConn) \<times> 'w"
  ActiveConnection :: "'w \<Rightarrow> ClientConn"

text \<open>
  The struct \<^verbatim>\<open>kv\<close>: \<open>client\<close> is the state behind the pointer \<^verbatim>\<open>c\<close> (and
  behind the connections), \<open>conn\<close> and \<open>remote\<close> are the two guarded fields, and
  \<open>events\<close> is the log. The mutex \<^verbatim>\<open>mu\<close> has no field of its own: one call runs
  alone here, so a \<^verbatim>\<open>Lock\<close> never waits, and what the mutex is for shows in the log
  as the \<open>Lock\<close> and \<open>Unlock\<close> events around the accesses.
\<close>

record 'w kv =
  client :: 'w
  conn :: ClientConn
  remote :: KVClient
  events :: "event list"

definition emit :: "event \<Rightarrow> 'w kv \<Rightarrow> 'w kv" where
  "emit e s = s\<lparr>events := events s @ [e]\<rparr>"

definition err_of :: "error + 'a \<Rightarrow> error option" where
  "err_of r = (case r of Inl e \<Rightarrow> Some e | Inr _ \<Rightarrow> None)"

text \<open>A result of a Go function that may also panic.\<close>

datatype 'a outcome = Return 'a | Panic string

subsection \<open>NewKV, getRemote, switchRemote\<close>

definition NewKV :: "'w env \<Rightarrow> 'w \<Rightarrow> 'w kv" where
  "NewKV env c =
     (let conn0 = ActiveConnection env c;
          remote0 = NewKVClient conn0
      in \<lparr>client = c, conn = ActiveConnection env c, remote = remote0, events = []\<rparr>)"

definition getRemote :: "'w kv \<Rightarrow> KVClient \<times> 'w kv" where
  "getRemote s =
     (let s1 = emit Lock s;
          r = remote s1;
          s2 = emit (Read F_remote) s1;
          s3 = emit Unlock s2
      in (r, s3))"

definition switchRemote :: "'w env \<Rightarrow> error \<Rightarrow> 'w kv \<Rightarrow> error option \<times> 'w kv" where
  "switchRemote env prevErr s =
     (let c0 = conn s;
          s1 = emit (Read F_conn) s;
          (res, w) = retryConnection env c0 prevErr (client s1);
          s2 = emit (RetryConnection c0 prevErr res) (s1\<lparr>client := w\<rparr>)
      in case res of
           Inl err \<Rightarrow> (Some err, s2)
         | Inr newConn \<Rightarrow>
             (let s3 = emit Lock s2;
                  s4 = emit (Write F_conn) (s3\<lparr>conn := newConn\<rparr>);
                  s5 = emit (Read F_conn) s4;
                  s6 = emit (Write F_remote) (s5\<lparr>remote := NewKVClient (conn s5)\<rparr>);
                  s7 = emit Unlock s6
              in (None, s7)))"

text \<open>\<^verbatim>\<open>go kv.switchRemote(err)\<close>: the goroutine is started, nothing of it has run.\<close>

definition go_switchRemote :: "error \<Rightarrow> 'w kv \<Rightarrow> 'w kv" where
  "go_switchRemote err s = emit (Go_switchRemote err) s"

subsection \<open>Compact\<close>

definition Compact :: "'w env \<Rightarrow> Context \<Rightarrow> int64 \<Rightarrow> 'w kv \<Rightarrow> error option \<times> 'w kv" where
  "Compact env ctx rev0 s =
     (let r = \<lparr>Compaction_Revision = rev0\<rparr>;
          (stub, s1) = getRemote s;
          (res, w) = stub_Compact env stub ctx r (client s1);
          s2 = emit (RPC stub (Req_Compact r) (err_of res)) (s1\<lparr>client := w\<rparr>)
      in case res of
           Inr _ \<Rightarrow> (None, s2)
         | Inl err \<Rightarrow>
             if isRPCError env err then (Some err, s2)
             else (Some err, go_switchRemote err s2))"

subsection \<open>do\<close>

text \<open>
  The \<^verbatim>\<open>switch op.t\<close> of one iteration of the loop of \<^verbatim>\<open>do\<close> (lines 128 to 161):
  it panics, or leaves with the wrapped reply (the \<^verbatim>\<open>return\<close> inside a case), or
  falls out of the switch with the error of the call.
\<close>

definition attempt ::
  "'w env \<Rightarrow> Context \<Rightarrow> Op \<Rightarrow> 'w kv \<Rightarrow> (error + ResponseUnion) outcome \<times> 'w kv" where
  "attempt env ctx op s =
     (case op_t op of
        tRange \<Rightarrow>
          (let r0 = \<lparr>Range_Key = op_key op, Range_RangeEnd = op_end op,
                     Range_Limit = op_limit op, Range_Revision = op_rev op,
                     Range_SortOrder = 0, Range_SortTarget = 0\<rparr>;
               r = (case op_sort op of
                      None \<Rightarrow> r0
                    | Some so \<Rightarrow> r0\<lparr>Range_SortOrder := ucast (Order so),
                                     Range_SortTarget := ucast (Target so)\<rparr>);
               (stub, s1) = getRemote s;
               (res, w) = stub_Range env stub ctx r (client s1);
               s2 = emit (RPC stub (Req_Range r) (err_of res)) (s1\<lparr>client := w\<rparr>)
           in case res of
                Inr resp \<Rightarrow> (Return (Inr (ResponseUnion_ResponseRange resp)), s2)
              | Inl err \<Rightarrow> (Return (Inl err), s2))
      | tPut \<Rightarrow>
          (let r = \<lparr>Put_Key = op_key op, Put_Value = op_val op, Put_Lease = op_leaseID op\<rparr>;
               (stub, s1) = getRemote s;
               (res, w) = stub_Put env stub ctx r (client s1);
               s2 = emit (RPC stub (Req_Put r) (err_of res)) (s1\<lparr>client := w\<rparr>)
           in case res of
                Inr resp \<Rightarrow> (Return (Inr (ResponseUnion_ResponsePut resp)), s2)
              | Inl err \<Rightarrow> (Return (Inl err), s2))
      | tDeleteRange \<Rightarrow>
          (let r = \<lparr>DeleteRange_Key = op_key op, DeleteRange_RangeEnd = op_end op\<rparr>;
               (stub, s1) = getRemote s;
               (res, w) = stub_DeleteRange env stub ctx r (client s1);
               s2 = emit (RPC stub (Req_DeleteRange r) (err_of res)) (s1\<lparr>client := w\<rparr>)
           in case res of
                Inr resp \<Rightarrow> (Return (Inr (ResponseUnion_ResponseDeleteRange resp)), s2)
              | Inl err \<Rightarrow> (Return (Inl err), s2))
      | tTxn \<Rightarrow> (Panic ''Unknown op'', s))"

text \<open>
  \<^verbatim>\<open>do\<close>: the \<^verbatim>\<open>for\<close> loop has no exit condition, so the function is partial:
  \<open>None\<close> is a run that never returns. A returned pair is Go's
  \<^verbatim>\<open>(*pb.ResponseUnion, error)\<close>, each component \<open>None\<close> for nil.
\<close>

partial_function (option) do ::
  "'w env \<Rightarrow> Context \<Rightarrow> Op \<Rightarrow> 'w kv \<Rightarrow>
     ((ResponseUnion option \<times> error option) outcome \<times> 'w kv) option" where
  "do env ctx op s =
     (case attempt env ctx op s of
        (Panic msg, s1) \<Rightarrow> Some (Panic msg, s1)
      | (Return (Inr ru), s1) \<Rightarrow> Some (Return (Some ru, None), s1)
      | (Return (Inl err), s1) \<Rightarrow>
          if isRPCError env err then Some (Return (None, Some err), s1)
          else if isWrite op then Some (Return (None, Some err), go_switchRemote err s1)
          else (case switchRemote env err s1 of
                  (Some nerr, s2) \<Rightarrow> Some (Return (None, Some nerr), s2)
                | (None, s2) \<Rightarrow> do env ctx op s2))"

declare do.simps [code]

subsection \<open>Put, Get, Delete\<close>

text \<open>
  Each returns Go's pair of a typed reply pointer and an error. \<^verbatim>\<open>do\<close> may not
  return and may panic, and so may they.
\<close>

definition Put ::
  "'w env \<Rightarrow> Context \<Rightarrow> bytes \<Rightarrow> bytes \<Rightarrow> OpOption list \<Rightarrow> 'w kv \<Rightarrow>
     ((PutResponse option \<times> error option) outcome \<times> 'w kv) option" where
  "Put env ctx key val opts s =
     (case do env ctx (OpPut key val opts) s of
        None \<Rightarrow> None
      | Some (Panic msg, s1) \<Rightarrow> Some (Panic msg, s1)
      | Some (Return (r, err), s1) \<Rightarrow>
          (case err of
             Some e \<Rightarrow> Some (Return (None, Some e), s1)
           | None \<Rightarrow> Some (Return (GetResponsePut r, None), s1)))"

definition Get ::
  "'w env \<Rightarrow> Context \<Rightarrow> bytes \<Rightarrow> OpOption list \<Rightarrow> 'w kv \<Rightarrow>
     ((RangeResponse option \<times> error option) outcome \<times> 'w kv) option" where
  "Get env ctx key opts s =
     (case do env ctx (OpGet key opts) s of
        None \<Rightarrow> None
      | Some (Panic msg, s1) \<Rightarrow> Some (Panic msg, s1)
      | Some (Return (r, err), s1) \<Rightarrow>
          (case err of
             Some e \<Rightarrow> Some (Return (None, Some e), s1)
           | None \<Rightarrow> Some (Return (GetResponseRange r, None), s1)))"

definition Delete ::
  "'w env \<Rightarrow> Context \<Rightarrow> bytes \<Rightarrow> OpOption list \<Rightarrow> 'w kv \<Rightarrow>
     ((DeleteRangeResponse option \<times> error option) outcome \<times> 'w kv) option" where
  "Delete env ctx key opts s =
     (case do env ctx (OpDelete key opts) s of
        None \<Rightarrow> None
      | Some (Panic msg, s1) \<Rightarrow> Some (Panic msg, s1)
      | Some (Return (r, err), s1) \<Rightarrow>
          (case err of
             Some e \<Rightarrow> Some (Return (None, Some e), s1)
           | None \<Rightarrow> Some (Return (GetResponseDeleteRange r, None), s1)))"

subsection \<open>Reading the log\<close>

text \<open>The number of RPC invocations in a log.\<close>

fun is_RPC :: "event \<Rightarrow> bool" where
  "is_RPC (RPC stub rq out) = True"
| "is_RPC _ = False"

definition rpc_calls :: "event list \<Rightarrow> nat" where
  "rpc_calls evs = length (filter is_RPC evs)"

text \<open>
  The lock discipline the struct declares (\<^verbatim>\<open>mu sync.Mutex // guards all fields\<close>):
  \<open>guarded held evs\<close> holds when every read and every write of \<^verbatim>\<open>conn\<close> and
  \<^verbatim>\<open>remote\<close> in \<open>evs\<close> happens between a \<open>Lock\<close> and the next \<open>Unlock\<close>;
  \<open>held\<close> says whether the caller holds the mutex at the start.
\<close>

fun guarded :: "bool \<Rightarrow> event list \<Rightarrow> bool" where
  "guarded held [] = True"
| "guarded held (Lock # evs) = guarded True evs"
| "guarded held (Unlock # evs) = guarded False evs"
| "guarded held (Read f # evs) = (held \<and> guarded held evs)"
| "guarded held (Write f # evs) = (held \<and> guarded held evs)"
| "guarded held (RPC stub rq out # evs) = guarded held evs"
| "guarded held (RetryConnection c e out # evs) = guarded held evs"
| "guarded held (Go_switchRemote e # evs) = guarded held evs"

text \<open>
  \<open>io_unlocked held evs\<close>: no call that goes to the network (an RPC, a
  \<^verbatim>\<open>retryConnection\<close>) is made while the mutex is held.
\<close>

fun io_unlocked :: "bool \<Rightarrow> event list \<Rightarrow> bool" where
  "io_unlocked held [] = True"
| "io_unlocked held (Lock # evs) = io_unlocked True evs"
| "io_unlocked held (Unlock # evs) = io_unlocked False evs"
| "io_unlocked held (RPC stub rq out # evs) = (\<not> held \<and> io_unlocked held evs)"
| "io_unlocked held (RetryConnection c e out # evs) = (\<not> held \<and> io_unlocked held evs)"
| "io_unlocked held (Read f # evs) = io_unlocked held evs"
| "io_unlocked held (Write f # evs) = io_unlocked held evs"
| "io_unlocked held (Go_switchRemote e # evs) = io_unlocked held evs"

text \<open>The events a call appended to the log: those of \<open>s'\<close> after those of \<open>s\<close>.\<close>

definition new_events :: "'w kv \<Rightarrow> 'w kv \<Rightarrow> event list" where
  "new_events s s' = drop (length (events s)) (events s')"

text \<open>The RPC method a request goes to, as the kind it serves; compaction serves none.\<close>

fun request_kind :: "request \<Rightarrow> opType option" where
  "request_kind (Req_Range r) = Some tRange"
| "request_kind (Req_Put r) = Some tPut"
| "request_kind (Req_DeleteRange r) = Some tDeleteRange"
| "request_kind (Req_Compact r) = None"

text \<open>The variant of a wrapped reply, as the kind it answers.\<close>

fun response_kind :: "ResponseUnion \<Rightarrow> opType" where
  "response_kind (ResponseUnion_ResponseRange x) = tRange"
| "response_kind (ResponseUnion_ResponsePut x) = tPut"
| "response_kind (ResponseUnion_ResponseDeleteRange x) = tDeleteRange"
| "response_kind (ResponseUnion_ResponseTxn x) = tTxn"

subsection \<open>The wire requests as the specification words them\<close>

text \<open>
  The specification of the encoding, to compare with what \<open>attempt\<close> builds: for
  Range, Key, RangeEnd, Limit and Revision are the descriptor's key, end, limit and
  revision, and the sort fields are the descriptor's (converted to the wire's 32-bit enum)
  when a sort spec is present and zero otherwise; for Put, Key, Value and Lease; for
  DeleteRange, Key and RangeEnd.
\<close>

definition wire_Range :: "Op \<Rightarrow> RangeRequest" where
  "wire_Range op =
     \<lparr>Range_Key = op_key op, Range_RangeEnd = op_end op, Range_Limit = op_limit op,
      Range_Revision = op_rev op,
      Range_SortOrder = (case op_sort op of None \<Rightarrow> 0 | Some so \<Rightarrow> ucast (Order so)),
      Range_SortTarget = (case op_sort op of None \<Rightarrow> 0 | Some so \<Rightarrow> ucast (Target so))\<rparr>"

definition wire_Put :: "Op \<Rightarrow> PutRequest" where
  "wire_Put op = \<lparr>Put_Key = op_key op, Put_Value = op_val op, Put_Lease = op_leaseID op\<rparr>"

definition wire_DeleteRange :: "Op \<Rightarrow> DeleteRangeRequest" where
  "wire_DeleteRange op = \<lparr>DeleteRange_Key = op_key op, DeleteRange_RangeEnd = op_end op\<rparr>"

definition wire_request :: "Op \<Rightarrow> request option" where
  "wire_request op =
     (case op_t op of
        tRange \<Rightarrow> Some (Req_Range (wire_Range op))
      | tPut \<Rightarrow> Some (Req_Put (wire_Put op))
      | tDeleteRange \<Rightarrow> Some (Req_DeleteRange (wire_DeleteRange op))
      | tTxn \<Rightarrow> None)"

subsection \<open>Scripted collaborators\<close>

text \<open>
  Collaborators to run the code against. The external state is a pair of counters: the
  number of RPCs made and the number of \<^verbatim>\<open>retryConnection\<close> calls made. The
  \<open>i\<close>-th RPC fails with \<open>f i\<close> if that is an error and succeeds otherwise; the
  \<open>j\<close>-th \<^verbatim>\<open>retryConnection\<close> returns \<open>g j\<close>. An error is RPC-level when its
  text starts with \<^verbatim>\<open>etcdserver: \<close>.
\<close>

definition script_env ::
  "(nat \<Rightarrow> error option) \<Rightarrow> (nat \<Rightarrow> error + ClientConn) \<Rightarrow> (nat \<times> nat) env" where
  "script_env f g =
     \<lparr>isRPCError = (\<lambda>e. case e of Error m \<Rightarrow> take 12 m = ''etcdserver: ''),
      stub_Range = (\<lambda>stub ctx r w.
        (case f (fst w) of Some e \<Rightarrow> Inl e | None \<Rightarrow> Inr (RangeResponse (fst w)),
         (Suc (fst w), snd w))),
      stub_Put = (\<lambda>stub ctx r w.
        (case f (fst w) of Some e \<Rightarrow> Inl e | None \<Rightarrow> Inr (PutResponse (fst w)),
         (Suc (fst w), snd w))),
      stub_DeleteRange = (\<lambda>stub ctx r w.
        (case f (fst w) of Some e \<Rightarrow> Inl e | None \<Rightarrow> Inr (DeleteRangeResponse (fst w)),
         (Suc (fst w), snd w))),
      stub_Compact = (\<lambda>stub ctx r w.
        (case f (fst w) of Some e \<Rightarrow> Inl e | None \<Rightarrow> Inr (CompactionResponse (fst w)),
         (Suc (fst w), snd w))),
      retryConnection = (\<lambda>c e w. (g (snd w), (fst w, Suc (snd w)))),
      ActiveConnection = (\<lambda>w. ClientConn (snd w))\<rparr>"

definition unavailable :: error where
  "unavailable = Error ''connection refused''"

definition compacted :: error where
  "compacted = Error ''etcdserver: mvcc: required revision has been compacted''"

definition no_endpoints :: error where
  "no_endpoints = Error ''no available endpoints''"

text \<open>The first \<open>n\<close> RPCs fail at the transport, the rest succeed; rotation succeeds.\<close>

definition flaky :: "nat \<Rightarrow> (nat \<times> nat) env" where
  "flaky n =
     script_env (\<lambda>i. if i < n then Some unavailable else None) (\<lambda>j. Inr (ClientConn (Suc j)))"

text \<open>Every RPC fails at the transport and rotation always succeeds.\<close>

definition blackhole :: "(nat \<times> nat) env" where
  "blackhole = script_env (\<lambda>i. Some unavailable) (\<lambda>j. Inr (ClientConn (Suc j)))"

text \<open>Every RPC fails at the transport and rotation fails.\<close>

definition isolated :: "(nat \<times> nat) env" where
  "isolated = script_env (\<lambda>i. Some unavailable) (\<lambda>j. Inl no_endpoints)"

text \<open>Every RPC is rejected by the server with an RPC-level error.\<close>

definition rejecting :: "(nat \<times> nat) env" where
  "rejecting = script_env (\<lambda>i. Some compacted) (\<lambda>j. Inr (ClientConn (Suc j)))"

section \<open>Basic facts\<close>

lemma err_of_simps [simp]: "err_of (Inl e) = Some e" "err_of (Inr x) = None"
  by (simp_all add: err_of_def)

lemma err_of_map_sum [simp]: "err_of (map_sum id f r) = err_of r"
  by (cases r) simp_all

lemma getRemote_eq:
  "getRemote s = (remote s, s\<lparr>events := events s @ [Lock, Read F_remote, Unlock]\<rparr>)"
  by (simp add: getRemote_def emit_def Let_def)

lemma switchRemote_fail:
  assumes "retryConnection env (conn s) prevErr (client s) = (Inl err, w)"
  shows "switchRemote env prevErr s =
           (Some err, s\<lparr>client := w,
              events := events s @ [Read F_conn, RetryConnection (conn s) prevErr (Inl err)]\<rparr>)"
  using assms by (simp add: switchRemote_def emit_def Let_def)

lemma switchRemote_ok:
  assumes "retryConnection env (conn s) prevErr (client s) = (Inr newConn, w)"
  shows "switchRemote env prevErr s =
           (None, s\<lparr>client := w, conn := newConn, remote := NewKVClient newConn,
              events := events s @ [Read F_conn, RetryConnection (conn s) prevErr (Inr newConn),
                 Lock, Write F_conn, Read F_conn, Write F_remote, Unlock]\<rparr>)"
  using assms by (simp add: switchRemote_def emit_def Let_def)

lemma Compact_eq:
  assumes "stub_Compact env (remote s) ctx \<lparr>Compaction_Revision = rv\<rparr> (client s) = (res, w)"
  shows "Compact env ctx rv s =
     (let s2 = s\<lparr>client := w, events := events s @
                  [Lock, Read F_remote, Unlock,
                   RPC (remote s) (Req_Compact \<lparr>Compaction_Revision = rv\<rparr>) (err_of res)]\<rparr>
      in case res of
           Inr x \<Rightarrow> (None, s2)
         | Inl err \<Rightarrow>
             if isRPCError env err then (Some err, s2)
             else (Some err, s2\<lparr>events := events s2 @ [Go_switchRemote err]\<rparr>))"
  using assms
  by (cases res) (simp_all add: Compact_def getRemote_eq emit_def go_switchRemote_def Let_def)

lemma attempt_Txn: "op_t op = tTxn \<Longrightarrow> attempt env ctx op s = (Panic ''Unknown op'', s)"
  by (simp add: attempt_def)

lemma attempt_Range:
  assumes "op_t op = tRange"
    and "stub_Range env (remote s) ctx (wire_Range op) (client s) = (res, w)"
  shows "attempt env ctx op s =
     (Return (map_sum id ResponseUnion_ResponseRange res),
      s\<lparr>client := w, events := events s @
         [Lock, Read F_remote, Unlock, RPC (remote s) (Req_Range (wire_Range op)) (err_of res)]\<rparr>)"
  using assms
  by (cases res; cases "op_sort op")
     (simp_all add: attempt_def getRemote_eq emit_def Let_def wire_Range_def)

lemma attempt_Put:
  assumes "op_t op = tPut"
    and "stub_Put env (remote s) ctx (wire_Put op) (client s) = (res, w)"
  shows "attempt env ctx op s =
     (Return (map_sum id ResponseUnion_ResponsePut res),
      s\<lparr>client := w, events := events s @
         [Lock, Read F_remote, Unlock, RPC (remote s) (Req_Put (wire_Put op)) (err_of res)]\<rparr>)"
  using assms
  by (cases res) (simp_all add: attempt_def getRemote_eq emit_def Let_def wire_Put_def)

lemma attempt_DeleteRange:
  assumes "op_t op = tDeleteRange"
    and "stub_DeleteRange env (remote s) ctx (wire_DeleteRange op) (client s) = (res, w)"
  shows "attempt env ctx op s =
     (Return (map_sum id ResponseUnion_ResponseDeleteRange res),
      s\<lparr>client := w, events := events s @
         [Lock, Read F_remote, Unlock,
          RPC (remote s) (Req_DeleteRange (wire_DeleteRange op)) (err_of res)]\<rparr>)"
  using assms
  by (cases res) (simp_all add: attempt_def getRemote_eq emit_def Let_def wire_DeleteRange_def)

text \<open>
  One iteration on a kind other than Txn: one read of the stub under the lock, one RPC on
  that stub with the request of the kind, nothing else, and the two guarded fields as
  they were.
\<close>

lemma attempt_shape:
  assumes "op_t op \<noteq> tTxn"
  shows "\<exists>res w rq. wire_request op = Some rq \<and> attempt env ctx op s =
     (Return res, s\<lparr>client := w, events := events s @
         [Lock, Read F_remote, Unlock, RPC (remote s) rq (err_of res)]\<rparr>) \<and>
     (\<forall>ru. res = Inr ru \<longrightarrow> response_kind ru = op_t op)"
proof (cases "op_t op")
  case tRange
  obtain res w where "stub_Range env (remote s) ctx (wire_Range op) (client s) = (res, w)"
    by (cases "stub_Range env (remote s) ctx (wire_Range op) (client s)")
  from attempt_Range [OF tRange this] tRange show ?thesis
    by (cases res) (auto simp: wire_request_def)
next
  case tPut
  obtain res w where "stub_Put env (remote s) ctx (wire_Put op) (client s) = (res, w)"
    by (cases "stub_Put env (remote s) ctx (wire_Put op) (client s)")
  from attempt_Put [OF tPut this] tPut show ?thesis
    by (cases res) (auto simp: wire_request_def)
next
  case tDeleteRange
  obtain res w where
    "stub_DeleteRange env (remote s) ctx (wire_DeleteRange op) (client s) = (res, w)"
    by (cases "stub_DeleteRange env (remote s) ctx (wire_DeleteRange op) (client s)")
  from attempt_DeleteRange [OF tDeleteRange this] tDeleteRange show ?thesis
    by (cases res) (auto simp: wire_request_def)
next
  case tTxn
  with assms show ?thesis by simp
qed

lemma attempt_Return_not_Txn:
  "attempt env ctx op s = (Return res, s1) \<Longrightarrow> op_t op \<noteq> tTxn"
  by (auto simp: attempt_Txn)

text \<open>The branches of \<open>do\<close> after the switch, one lemma each.\<close>

lemma do_success:
  "attempt env ctx op s = (Return (Inr ru), s1) \<Longrightarrow>
   do env ctx op s = Some (Return (Some ru, None), s1)"
  by (subst do.simps) simp

lemma do_panic:
  "attempt env ctx op s = (Panic m, s1) \<Longrightarrow> do env ctx op s = Some (Panic m, s1)"
  by (subst do.simps) simp

lemma do_rpc_error:
  "attempt env ctx op s = (Return (Inl err), s1) \<Longrightarrow> isRPCError env err \<Longrightarrow>
   do env ctx op s = Some (Return (None, Some err), s1)"
  by (subst do.simps) simp

lemma do_write_transport:
  "attempt env ctx op s = (Return (Inl err), s1) \<Longrightarrow> \<not> isRPCError env err \<Longrightarrow>
   op_t op \<noteq> tRange \<Longrightarrow>
   do env ctx op s = Some (Return (None, Some err), go_switchRemote err s1)"
  by (subst do.simps) simp

lemma do_rotation_failed:
  "attempt env ctx op s = (Return (Inl err), s1) \<Longrightarrow> \<not> isRPCError env err \<Longrightarrow>
   op_t op = tRange \<Longrightarrow> switchRemote env err s1 = (Some nerr, s2) \<Longrightarrow>
   do env ctx op s = Some (Return (None, Some nerr), s2)"
  by (subst do.simps) simp

lemma do_retry:
  "attempt env ctx op s = (Return (Inl err), s1) \<Longrightarrow> \<not> isRPCError env err \<Longrightarrow>
   op_t op = tRange \<Longrightarrow> switchRemote env err s1 = (None, s2) \<Longrightarrow>
   do env ctx op s = do env ctx op s2"
  by (subst do.simps) simp

lemma applyOpt_kind [simp]: "op_t (applyOpt x op) = op_t op"
  by (cases x) simp_all

lemma applyOpts_kind [simp]: "op_t (applyOpts opts op) = op_t op"
  unfolding applyOpts_def by (induction opts arbitrary: op) simp_all

lemma OpPut_kind [simp]: "op_t (OpPut key val opts) = tPut"
  by (simp add: OpPut_def zeroOp_def)

lemma OpGet_kind [simp]: "op_t (OpGet key opts) = tRange"
  by (simp add: OpGet_def zeroOp_def)

lemma OpDelete_kind [simp]: "op_t (OpDelete key opts) = tDeleteRange"
  by (simp add: OpDelete_def zeroOp_def)

text \<open>The scripted collaborators, evaluated.\<close>

lemma script_env_sel [simp]:
  "isRPCError (script_env f g) (Error m) = (take 12 m = ''etcdserver: '')"
  "stub_Range (script_env f g) stub ctx rr w =
     (case f (fst w) of Some e \<Rightarrow> Inl e | None \<Rightarrow> Inr (RangeResponse (fst w)), (Suc (fst w), snd w))"
  "stub_Put (script_env f g) stub ctx rp w =
     (case f (fst w) of Some e \<Rightarrow> Inl e | None \<Rightarrow> Inr (PutResponse (fst w)), (Suc (fst w), snd w))"
  "stub_DeleteRange (script_env f g) stub ctx rd w =
     (case f (fst w) of Some e \<Rightarrow> Inl e | None \<Rightarrow> Inr (DeleteRangeResponse (fst w)),
      (Suc (fst w), snd w))"
  "stub_Compact (script_env f g) stub ctx rc w =
     (case f (fst w) of Some e \<Rightarrow> Inl e | None \<Rightarrow> Inr (CompactionResponse (fst w)),
      (Suc (fst w), snd w))"
  "retryConnection (script_env f g) c e w = (g (snd w), (fst w, Suc (snd w)))"
  "ActiveConnection (script_env f g) w = ClientConn (snd w)"
  by (simp_all add: script_env_def)

lemma unavailable_not_rpc [simp]: "\<not> isRPCError (script_env f g) unavailable"
  by (simp add: unavailable_def)

lemma no_endpoints_not_rpc [simp]: "\<not> isRPCError (script_env f g) no_endpoints"
  by (simp add: no_endpoints_def)

lemma compacted_rpc [simp]: "isRPCError (script_env f g) compacted"
  by (simp add: compacted_def)

lemma NewKV_script [simp]:
  "NewKV (script_env f g) w =
     \<lparr>client = w, conn = ClientConn (snd w), remote = NewKVClient (ClientConn (snd w)),
      events = []\<rparr>"
  by (simp add: NewKV_def)

section \<open>NewKV\<close>

text \<open>
  Claim C9. The value \<^verbatim>\<open>NewKV\<close> returns holds the pair in step: its stub is the RPC
  client made from the connection handle in its \<^verbatim>\<open>conn\<close> field, whatever the state
  of the client. \<^verbatim>\<open>NewKV\<close> asks the client for its active connection twice, once for
  the stub and once for the field; both reads see the same client state here, one call
  running alone.
\<close>

theorem NewKV_pair:
  "remote (NewKV env c) = NewKVClient (conn (NewKV env c)) \<and>
   conn (NewKV env c) = ActiveConnection env c \<and>
   client (NewKV env c) = c"
  by (simp add: NewKV_def)

section \<open>switchRemote\<close>

text \<open>
  Claim C7. When \<^verbatim>\<open>retryConnection\<close> fails, \<^verbatim>\<open>switchRemote\<close> returns that
  error and the connection handle and the stub are what they were. When it succeeds,
  \<^verbatim>\<open>switchRemote\<close> returns nil, the handle is the new connection, the stub is the
  client made from that new connection, and both writes lie between one \<open>Lock\<close> and the
  \<open>Unlock\<close> that follows it.
\<close>

theorem switchRemote_pair:
  "(retryConnection env (conn s) prevErr (client s) = (Inl err, w) \<longrightarrow>
      fst (switchRemote env prevErr s) = Some err \<and>
      conn (snd (switchRemote env prevErr s)) = conn s \<and>
      remote (snd (switchRemote env prevErr s)) = remote s \<and>
      events (snd (switchRemote env prevErr s)) =
        events s @ [Read F_conn, RetryConnection (conn s) prevErr (Inl err)]) \<and>
   (retryConnection env (conn s) prevErr (client s) = (Inr newConn, w) \<longrightarrow>
      fst (switchRemote env prevErr s) = None \<and>
      conn (snd (switchRemote env prevErr s)) = newConn \<and>
      remote (snd (switchRemote env prevErr s)) = NewKVClient newConn \<and>
      events (snd (switchRemote env prevErr s)) =
        events s @ [Read F_conn, RetryConnection (conn s) prevErr (Inr newConn),
                    Lock, Write F_conn, Read F_conn, Write F_remote, Unlock])"
  by (simp add: switchRemote_fail switchRemote_ok)

theorem switchRemote_pair_witness:
  "fst (switchRemote isolated unavailable (NewKV isolated (0, 0))) = Some no_endpoints \<and>
   conn (snd (switchRemote isolated unavailable (NewKV isolated (0, 0)))) = ClientConn 0 \<and>
   remote (snd (switchRemote isolated unavailable (NewKV isolated (0, 0)))) =
     NewKVClient (ClientConn 0) \<and>
   fst (switchRemote blackhole unavailable (NewKV blackhole (0, 0))) = None \<and>
   conn (snd (switchRemote blackhole unavailable (NewKV blackhole (0, 0)))) = ClientConn 1 \<and>
   remote (snd (switchRemote blackhole unavailable (NewKV blackhole (0, 0)))) =
     NewKVClient (ClientConn 1) \<and>
   events (snd (switchRemote blackhole unavailable (NewKV blackhole (0, 0)))) =
     [Read F_conn, RetryConnection (ClientConn 0) unavailable (Inr (ClientConn 1)),
      Lock, Write F_conn, Read F_conn, Write F_remote, Unlock]"
proof -
  have a: "retryConnection isolated (conn (NewKV isolated (0, 0))) unavailable
             (client (NewKV isolated (0, 0))) = (Inl no_endpoints, (0, 1))"
    by (simp add: isolated_def)
  have b: "retryConnection blackhole (conn (NewKV blackhole (0, 0))) unavailable
             (client (NewKV blackhole (0, 0))) = (Inr (ClientConn 1), (0, 1))"
    by (simp add: blackhole_def)
  have c: "conn (NewKV isolated (0, 0)) = ClientConn 0"
    "remote (NewKV isolated (0, 0)) = NewKVClient (ClientConn 0)"
    "conn (NewKV blackhole (0, 0)) = ClientConn 0"
    "events (NewKV blackhole (0, 0)) = []"
    by (simp_all add: isolated_def blackhole_def)
  from switchRemote_pair [where env = isolated and s = "NewKV isolated (0, 0)"
      and prevErr = unavailable and err = no_endpoints and w = "(0, 1)"] a
  have 1: "fst (switchRemote isolated unavailable (NewKV isolated (0, 0))) = Some no_endpoints \<and>
     conn (snd (switchRemote isolated unavailable (NewKV isolated (0, 0)))) = ClientConn 0 \<and>
     remote (snd (switchRemote isolated unavailable (NewKV isolated (0, 0)))) =
       NewKVClient (ClientConn 0)"
    by (simp only: c simp_thms)
  from switchRemote_pair [where env = blackhole and s = "NewKV blackhole (0, 0)"
      and prevErr = unavailable and newConn = "ClientConn 1" and w = "(0, 1)"] b
  have 2: "fst (switchRemote blackhole unavailable (NewKV blackhole (0, 0))) = None \<and>
     conn (snd (switchRemote blackhole unavailable (NewKV blackhole (0, 0)))) = ClientConn 1 \<and>
     remote (snd (switchRemote blackhole unavailable (NewKV blackhole (0, 0)))) =
       NewKVClient (ClientConn 1) \<and>
     events (snd (switchRemote blackhole unavailable (NewKV blackhole (0, 0)))) =
       [Read F_conn, RetryConnection (ClientConn 0) unavailable (Inr (ClientConn 1)),
        Lock, Write F_conn, Read F_conn, Write F_remote, Unlock]"
    by (simp only: c simp_thms append_Nil)
  from 1 2 show ?thesis by (simp only: simp_thms)
qed

section \<open>Compact\<close>

text \<open>
  Claim C8. \<^verbatim>\<open>Compact(ctx, rev)\<close> makes one RPC, a compaction request with
  \<open>Revision = rev\<close>, on the stub read under the lock. On success it returns nil. On an
  RPC-level error it returns that error and starts no rotation. On any other error it
  starts \<^verbatim>\<open>switchRemote\<close> in a goroutine, does not wait for it (no
  \<^verbatim>\<open>retryConnection\<close> has been called and the pair is unchanged when it returns),
  and returns the error.
\<close>

theorem Compact_policy:
  "(stub_Compact env (remote s) ctx \<lparr>Compaction_Revision = rv\<rparr> (client s) = (Inr x, w) \<longrightarrow>
      Compact env ctx rv s =
        (None, s\<lparr>client := w, events := events s @
           [Lock, Read F_remote, Unlock,
            RPC (remote s) (Req_Compact \<lparr>Compaction_Revision = rv\<rparr>) None]\<rparr>)) \<and>
   (stub_Compact env (remote s) ctx \<lparr>Compaction_Revision = rv\<rparr> (client s) = (Inl err, w) \<and>
    isRPCError env err \<longrightarrow>
      Compact env ctx rv s =
        (Some err, s\<lparr>client := w, events := events s @
           [Lock, Read F_remote, Unlock,
            RPC (remote s) (Req_Compact \<lparr>Compaction_Revision = rv\<rparr>) (Some err)]\<rparr>)) \<and>
   (stub_Compact env (remote s) ctx \<lparr>Compaction_Revision = rv\<rparr> (client s) = (Inl err, w) \<and>
    \<not> isRPCError env err \<longrightarrow>
      Compact env ctx rv s =
        (Some err, s\<lparr>client := w, events := events s @
           [Lock, Read F_remote, Unlock,
            RPC (remote s) (Req_Compact \<lparr>Compaction_Revision = rv\<rparr>) (Some err),
            Go_switchRemote err]\<rparr>))"
  by (auto simp: Compact_eq)

theorem Compact_policy_witness:
  "Compact (flaky 0) (Context 0) 5 (NewKV (flaky 0) (0, 0)) =
     (None, \<lparr>client = (1, 0), conn = ClientConn 0, remote = NewKVClient (ClientConn 0),
        events = [Lock, Read F_remote, Unlock,
           RPC (NewKVClient (ClientConn 0)) (Req_Compact \<lparr>Compaction_Revision = 5\<rparr>) None]\<rparr>) \<and>
   Compact rejecting (Context 0) 5 (NewKV rejecting (0, 0)) =
     (Some compacted, \<lparr>client = (1, 0), conn = ClientConn 0,
        remote = NewKVClient (ClientConn 0),
        events = [Lock, Read F_remote, Unlock,
           RPC (NewKVClient (ClientConn 0)) (Req_Compact \<lparr>Compaction_Revision = 5\<rparr>)
             (Some compacted)]\<rparr>) \<and>
   Compact blackhole (Context 0) 5 (NewKV blackhole (0, 0)) =
     (Some unavailable, \<lparr>client = (1, 0), conn = ClientConn 0,
        remote = NewKVClient (ClientConn 0),
        events = [Lock, Read F_remote, Unlock,
           RPC (NewKVClient (ClientConn 0)) (Req_Compact \<lparr>Compaction_Revision = 5\<rparr>)
             (Some unavailable),
           Go_switchRemote unavailable]\<rparr>)"
proof -
  have a: "stub_Compact (flaky 0) (remote (NewKV (flaky 0) (0, 0))) (Context 0)
             \<lparr>Compaction_Revision = 5\<rparr> (client (NewKV (flaky 0) (0, 0)))
           = (Inr (CompactionResponse 0), (1, 0))"
    by (simp add: flaky_def)
  have b: "stub_Compact rejecting (remote (NewKV rejecting (0, 0))) (Context 0)
             \<lparr>Compaction_Revision = 5\<rparr> (client (NewKV rejecting (0, 0)))
           = (Inl compacted, (1, 0)) \<and> isRPCError rejecting compacted"
    by (simp add: rejecting_def)
  have c: "stub_Compact blackhole (remote (NewKV blackhole (0, 0))) (Context 0)
             \<lparr>Compaction_Revision = 5\<rparr> (client (NewKV blackhole (0, 0)))
           = (Inl unavailable, (1, 0)) \<and> \<not> isRPCError blackhole unavailable"
    by (simp add: blackhole_def)
  from Compact_policy [where env = "flaky 0" and s = "NewKV (flaky 0) (0, 0)"
      and ctx = "Context 0" and rv = 5 and x = "CompactionResponse 0" and w = "(1, 0)"] a
  have 1: "Compact (flaky 0) (Context 0) 5 (NewKV (flaky 0) (0, 0)) =
     (None, \<lparr>client = (1, 0), conn = ClientConn 0, remote = NewKVClient (ClientConn 0),
        events = [Lock, Read F_remote, Unlock,
           RPC (NewKVClient (ClientConn 0)) (Req_Compact \<lparr>Compaction_Revision = 5\<rparr>) None]\<rparr>)"
    by (simp add: flaky_def)
  from Compact_policy [where env = rejecting and s = "NewKV rejecting (0, 0)"
      and ctx = "Context 0" and rv = 5 and err = compacted and w = "(1, 0)"] b
  have 2: "Compact rejecting (Context 0) 5 (NewKV rejecting (0, 0)) =
     (Some compacted, \<lparr>client = (1, 0), conn = ClientConn 0,
        remote = NewKVClient (ClientConn 0),
        events = [Lock, Read F_remote, Unlock,
           RPC (NewKVClient (ClientConn 0)) (Req_Compact \<lparr>Compaction_Revision = 5\<rparr>)
             (Some compacted)]\<rparr>)"
    by (simp add: rejecting_def)
  from Compact_policy [where env = blackhole and s = "NewKV blackhole (0, 0)"
      and ctx = "Context 0" and rv = 5 and err = unavailable and w = "(1, 0)"] c
  have 3: "Compact blackhole (Context 0) 5 (NewKV blackhole (0, 0)) =
     (Some unavailable, \<lparr>client = (1, 0), conn = ClientConn 0,
        remote = NewKVClient (ClientConn 0),
        events = [Lock, Read F_remote, Unlock,
           RPC (NewKVClient (ClientConn 0)) (Req_Compact \<lparr>Compaction_Revision = 5\<rparr>)
             (Some unavailable),
           Go_switchRemote unavailable]\<rparr>)"
    by (simp add: blackhole_def)
  from 1 2 3 show ?thesis by (simp only: simp_thms)
qed

section \<open>Runs of do that return\<close>

text \<open>
  Induction over the iterations of a run of \<^verbatim>\<open>do\<close> that returns: five ways to leave
  the loop in the current iteration, and one way to go round again.
\<close>

lemma do_returns_induct [consumes 1, case_names panic success rpc_error write_error rotation_failed retry]:
  assumes ret: "do env ctx op s = Some y"
    and panic: "\<And>s m s1. attempt env ctx op s = (Panic m, s1) \<Longrightarrow> P s (Panic m, s1)"
    and success: "\<And>s ru s1. attempt env ctx op s = (Return (Inr ru), s1) \<Longrightarrow>
        P s (Return (Some ru, None), s1)"
    and rpc_error: "\<And>s err s1. attempt env ctx op s = (Return (Inl err), s1) \<Longrightarrow>
        isRPCError env err \<Longrightarrow> P s (Return (None, Some err), s1)"
    and write_error: "\<And>s err s1. attempt env ctx op s = (Return (Inl err), s1) \<Longrightarrow>
        \<not> isRPCError env err \<Longrightarrow> op_t op \<noteq> tRange \<Longrightarrow>
        P s (Return (None, Some err), go_switchRemote err s1)"
    and rotation_failed: "\<And>s err s1 nerr s2. attempt env ctx op s = (Return (Inl err), s1) \<Longrightarrow>
        \<not> isRPCError env err \<Longrightarrow> op_t op = tRange \<Longrightarrow>
        switchRemote env err s1 = (Some nerr, s2) \<Longrightarrow> P s (Return (None, Some nerr), s2)"
    and retry: "\<And>s err s1 s2 y. attempt env ctx op s = (Return (Inl err), s1) \<Longrightarrow>
        \<not> isRPCError env err \<Longrightarrow> op_t op = tRange \<Longrightarrow>
        switchRemote env err s1 = (None, s2) \<Longrightarrow> do env ctx op s2 = Some y \<Longrightarrow>
        P s2 y \<Longrightarrow> P s y"
  shows "P s y"
proof -
  have "env' = env \<and> ctx' = ctx \<and> op' = op \<longrightarrow> do env ctx op s = Some y \<and> P s y"
    if "do env' ctx' op' s = Some y" for env' ctx' op'
    using that
  proof (rule do.raw_induct [rotated, where
        P = "\<lambda>env' ctx' op' s y. env' = env \<and> ctx' = ctx \<and> op' = op \<longrightarrow>
               do env ctx op s = Some y \<and> P s y"], goal_cases)
    case (1 f env' ctx' op' s y)
    show ?case
    proof (intro impI)
      assume eq: "env' = env \<and> ctx' = ctx \<and> op' = op"
      obtain a s1 where att: "attempt env ctx op s = (a, s1)"
        by (cases "attempt env ctx op s")
      show "do env ctx op s = Some y \<and> P s y"
      proof (cases a)
        case (Panic m)
        with att 1(2) eq have "y = (Panic m, s1)" by simp
        with att Panic show ?thesis by (simp add: do_panic panic)
      next
        case (Return res)
        show ?thesis
        proof (cases res)
          case (Inr ru)
          with att Return 1(2) eq have "y = (Return (Some ru, None), s1)" by simp
          with att Return Inr show ?thesis by (simp add: do_success success)
        next
          case (Inl err)
          note a = att [unfolded Return Inl]
          show ?thesis
          proof (cases "isRPCError env err")
            case True
            with a 1(2) eq have "y = (Return (None, Some err), s1)" by simp
            with a True show ?thesis by (simp add: do_rpc_error rpc_error)
          next
            case nrpc: False
            show ?thesis
            proof (cases "op_t op = tRange")
              case False
              with a nrpc 1(2) eq have "y = (Return (None, Some err), go_switchRemote err s1)"
                by simp
              with a nrpc False show ?thesis by (simp add: do_write_transport write_error)
            next
              case True
              obtain b s2 where sw: "switchRemote env err s1 = (b, s2)"
                by (cases "switchRemote env err s1")
              show ?thesis
              proof (cases b)
                case (Some nerr)
                with a nrpc True sw 1(2) eq have "y = (Return (None, Some nerr), s2)" by simp
                with a nrpc True sw Some show ?thesis
                  by (simp add: do_rotation_failed rotation_failed)
              next
                case None
                with a nrpc True sw 1(2) eq have "f env ctx op s2 = Some y" by simp
                from 1(1) [OF this] have ih: "do env ctx op s2 = Some y" "P s2 y" by simp_all
                from a nrpc True sw None ih(1) have "do env ctx op s = Some y"
                  by (simp add: do_retry)
                moreover from retry a nrpc True sw None ih have "P s y" by blast
                ultimately show ?thesis ..
              qed
            qed
          qed
        qed
      qed
    qed
  qed
  from this [OF ret] show ?thesis by simp
qed

text \<open>What a run of \<^verbatim>\<open>do\<close> can return, by the kind of the descriptor.\<close>

lemma do_result_shape:
  assumes "do env ctx op s = Some y"
  shows "(\<exists>m. fst y = Panic m \<and> op_t op = tTxn) \<or>
         (\<exists>e. fst y = Return (None, Some e)) \<or>
         (\<exists>ru. fst y = Return (Some ru, None) \<and> response_kind ru = op_t op)"
  using assms
proof (induction rule: do_returns_induct)
  case (panic s m s1)
  then show ?case using attempt_shape [of op env ctx s] by (cases "op_t op = tTxn") auto
next
  case (success s ru s1)
  then show ?case using attempt_shape [of op env ctx s] by (cases "op_t op = tTxn") (auto simp: attempt_Txn)
qed simp_all

text \<open>Every RPC of a run carries the request the descriptor encodes to.\<close>

lemma do_requests:
  assumes "do env ctx op s = Some y"
  shows "\<exists>evs. events (snd y) = events s @ evs \<and>
           (\<forall>stub rq out. RPC stub rq out \<in> set evs \<longrightarrow> wire_request op = Some rq)"
  using assms
proof (induction rule: do_returns_induct)
  case (panic s m s1)
  then show ?case using attempt_shape [of op env ctx s] by (cases "op_t op = tTxn") (auto simp: attempt_Txn)
next
  case (success s ru s1)
  then show ?case using attempt_shape [of op env ctx s] by (cases "op_t op = tTxn") (auto simp: attempt_Txn)
next
  case (rpc_error s err s1)
  then show ?case using attempt_shape [of op env ctx s] by (cases "op_t op = tTxn") (auto simp: attempt_Txn)
next
  case (write_error s err s1)
  then show ?case using attempt_shape [of op env ctx s]
    by (cases "op_t op = tTxn") (auto simp: attempt_Txn go_switchRemote_def emit_def)
next
  case (rotation_failed s err s1 nerr s2)
  obtain res w where rc: "retryConnection env (conn s1) err (client s1) = (res, w)"
    by (cases "retryConnection env (conn s1) err (client s1)")
  from rotation_failed rc show ?case using attempt_shape [of op env ctx s]
    by (cases res) (auto simp: switchRemote_fail switchRemote_ok)
next
  case (retry s err s1 s2 y)
  obtain res w where rc: "retryConnection env (conn s1) err (client s1) = (res, w)"
    by (cases "retryConnection env (conn s1) err (client s1)")
  from retry(1,3) obtain rq w1 where s1: "wire_request op = Some rq"
      "s1 = s\<lparr>client := w1, events := events s @
         [Lock, Read F_remote, Unlock, RPC (remote s) rq (Some err)]\<rparr>"
    using attempt_shape [of op env ctx s] by auto
  from retry(4) rc have s2: "events s2 = events s1 @
      [Read F_conn, RetryConnection (conn s1) err res,
       Lock, Write F_conn, Read F_conn, Write F_remote, Unlock]"
    by (cases res) (auto simp: switchRemote_fail switchRemote_ok)
  from retry.IH obtain evs where evs: "events (snd y) = events s2 @ evs"
      "\<forall>stub rq out. RPC stub rq out \<in> set evs \<longrightarrow> wire_request op = Some rq"
    by blast
  show ?case
  proof (intro exI conjI)
    show "events (snd y) = events s @
       ([Lock, Read F_remote, Unlock, RPC (remote s) rq (Some err)] @
        [Read F_conn, RetryConnection (conn s1) err res,
         Lock, Write F_conn, Read F_conn, Write F_remote, Unlock] @ evs)"
      using evs(1) s2 s1(2) by simp
    show "\<forall>stub rq' out. RPC stub rq' out \<in> set
       ([Lock, Read F_remote, Unlock, RPC (remote s) rq (Some err)] @
        [Read F_conn, RetryConnection (conn s1) err res,
         Lock, Write F_conn, Read F_conn, Write F_remote, Unlock] @ evs) \<longrightarrow>
         wire_request op = Some rq'"
      using evs(2) s1(1) by auto
  qed
qed

lemma rpc_calls_append [simp]: "rpc_calls (xs @ ys) = rpc_calls xs + rpc_calls ys"
  by (simp add: rpc_calls_def)

lemma rpc_calls_simps [simp]:
  "rpc_calls [] = 0"
  "rpc_calls (RPC stub rq out # evs) = Suc (rpc_calls evs)"
  "rpc_calls (Lock # evs) = rpc_calls evs"
  "rpc_calls (Unlock # evs) = rpc_calls evs"
  "rpc_calls (Read f # evs) = rpc_calls evs"
  "rpc_calls (Write f # evs) = rpc_calls evs"
  "rpc_calls (RetryConnection c e r # evs) = rpc_calls evs"
  "rpc_calls (Go_switchRemote e # evs) = rpc_calls evs"
  by (simp_all add: rpc_calls_def)

section \<open>do: errors that end the call\<close>

text \<open>
  Claim C1. A Put or DeleteRange descriptor whose RPC fails with an error that is not
  RPC-level: \<^verbatim>\<open>do\<close> returns that error after this one RPC. The log of the call is
  the read of the stub, the one RPC and the start of the \<^verbatim>\<open>switchRemote\<close>
  goroutine; there is no \<^verbatim>\<open>retryConnection\<close> in it and the pair is unchanged, so
  the rotation was started and not waited for.
\<close>

theorem write_transport_error_no_retry:
  assumes "op_t op = tPut \<or> op_t op = tDeleteRange"
    and "attempt env ctx op s = (Return (Inl err), s1)"
    and "\<not> isRPCError env err"
  shows "\<exists>s' rq. do env ctx op s = Some (Return (None, Some err), s') \<and>
           events s' = events s @
             [Lock, Read F_remote, Unlock, RPC (remote s) rq (Some err), Go_switchRemote err] \<and>
           rpc_calls (events s') = Suc (rpc_calls (events s)) \<and>
           conn s' = conn s \<and> remote s' = remote s"
proof -
  from assms(1) have k: "op_t op \<noteq> tTxn" "op_t op \<noteq> tRange" by auto
  from attempt_shape [OF k(1), of env ctx s] assms(2) obtain w rq where
    s1: "s1 = s\<lparr>client := w, events := events s @
           [Lock, Read F_remote, Unlock, RPC (remote s) rq (Some err)]\<rparr>"
    by auto
  from do_write_transport [OF assms(2,3) k(2)]
  have "do env ctx op s = Some (Return (None, Some err), go_switchRemote err s1)" .
  with s1 show ?thesis
    by (intro exI [of _ "go_switchRemote err s1"] exI [of _ rq])
       (simp add: go_switchRemote_def emit_def)
qed

theorem write_transport_error_no_retry_witness:
  "\<exists>s' rq. do blackhole (Context 0) (OpPut ''foo'' ''bar'' []) (NewKV blackhole (0, 0)) =
       Some (Return (None, Some unavailable), s') \<and>
     events s' = events (NewKV blackhole (0, 0)) @
       [Lock, Read F_remote, Unlock,
        RPC (remote (NewKV blackhole (0, 0))) rq (Some unavailable),
        Go_switchRemote unavailable] \<and>
     rpc_calls (events s') = Suc (rpc_calls (events (NewKV blackhole (0, 0)))) \<and>
     conn s' = conn (NewKV blackhole (0, 0)) \<and> remote s' = remote (NewKV blackhole (0, 0))"
proof -
  have k: "op_t (OpPut ''foo'' ''bar'' []) = tPut \<or> op_t (OpPut ''foo'' ''bar'' []) = tDeleteRange"
    by simp
  have a: "attempt blackhole (Context 0) (OpPut ''foo'' ''bar'' []) (NewKV blackhole (0, 0)) =
      (Return (Inl unavailable),
       \<lparr>client = (1, 0), conn = ClientConn 0, remote = NewKVClient (ClientConn 0),
        events = [Lock, Read F_remote, Unlock,
          RPC (NewKVClient (ClientConn 0))
            (Req_Put \<lparr>Put_Key = ''foo'', Put_Value = ''bar'', Put_Lease = 0\<rparr>)
            (Some unavailable)]\<rparr>)"
    by (simp add: attempt_def blackhole_def OpPut_def zeroOp_def applyOpts_def getRemote_eq
        emit_def)
  have n: "\<not> isRPCError blackhole unavailable"
    by (simp add: blackhole_def)
  from write_transport_error_no_retry [OF k a n] show ?thesis .
qed

text \<open>
  Claim C2. An RPC that fails with an RPC-level error ends the call, for a descriptor of
  any of the kinds \<^verbatim>\<open>do\<close> serves (a first iteration that returns from the switch
  with an error is one of Range, Put, DeleteRange) and for \<^verbatim>\<open>Compact\<close>: the error
  is returned as it is, the log of the call is the read of the stub and the one RPC, with
  no \<^verbatim>\<open>retryConnection\<close> and no goroutine, and the pair is unchanged.
\<close>

theorem rpc_error_returned_at_once:
  "(attempt env ctx op s = (Return (Inl err), s1) \<and> isRPCError env err \<longrightarrow>
      (\<exists>s' rq. do env ctx op s = Some (Return (None, Some err), s') \<and>
         events s' = events s @ [Lock, Read F_remote, Unlock, RPC (remote s) rq (Some err)] \<and>
         rpc_calls (events s') = Suc (rpc_calls (events s)) \<and>
         conn s' = conn s \<and> remote s' = remote s)) \<and>
   (stub_Compact env (remote s) ctx \<lparr>Compaction_Revision = rv\<rparr> (client s) = (Inl err, w) \<and>
    isRPCError env err \<longrightarrow>
      (\<exists>s'. Compact env ctx rv s = (Some err, s') \<and>
         events s' = events s @
           [Lock, Read F_remote, Unlock,
            RPC (remote s) (Req_Compact \<lparr>Compaction_Revision = rv\<rparr>) (Some err)] \<and>
         rpc_calls (events s') = Suc (rpc_calls (events s)) \<and>
         conn s' = conn s \<and> remote s' = remote s))"
proof (intro conjI impI)
  assume h: "attempt env ctx op s = (Return (Inl err), s1) \<and> isRPCError env err"
  then have k: "op_t op \<noteq> tTxn" by (auto simp: attempt_Txn)
  from attempt_shape [OF k, of env ctx s] h obtain w rq where
    s1: "s1 = s\<lparr>client := w, events := events s @
           [Lock, Read F_remote, Unlock, RPC (remote s) rq (Some err)]\<rparr>"
    by auto
  from h have "do env ctx op s = Some (Return (None, Some err), s1)"
    by (simp add: do_rpc_error)
  with s1 show "\<exists>s' rq. do env ctx op s = Some (Return (None, Some err), s') \<and>
         events s' = events s @ [Lock, Read F_remote, Unlock, RPC (remote s) rq (Some err)] \<and>
         rpc_calls (events s') = Suc (rpc_calls (events s)) \<and>
         conn s' = conn s \<and> remote s' = remote s"
    by (intro exI [of _ s1] exI [of _ rq]) simp
next
  assume "stub_Compact env (remote s) ctx \<lparr>Compaction_Revision = rv\<rparr> (client s) = (Inl err, w) \<and>
    isRPCError env err"
  then show "\<exists>s'. Compact env ctx rv s = (Some err, s') \<and>
         events s' = events s @
           [Lock, Read F_remote, Unlock,
            RPC (remote s) (Req_Compact \<lparr>Compaction_Revision = rv\<rparr>) (Some err)] \<and>
         rpc_calls (events s') = Suc (rpc_calls (events s)) \<and>
         conn s' = conn s \<and> remote s' = remote s"
    by (simp add: Compact_eq)
qed

lemma attempt_rejecting:
  "attempt rejecting (Context 0) (OpGet ''a'' [WithRange ''z'']) (NewKV rejecting (0, 0)) =
     (Return (Inl compacted),
      \<lparr>client = (1, 0), conn = ClientConn 0, remote = NewKVClient (ClientConn 0),
       events = [Lock, Read F_remote, Unlock,
         RPC (NewKVClient (ClientConn 0))
           (Req_Range \<lparr>Range_Key = ''a'', Range_RangeEnd = ''z'', Range_Limit = 0,
              Range_Revision = 0, Range_SortOrder = 0, Range_SortTarget = 0\<rparr>)
           (Some compacted)]\<rparr>)"
  "attempt rejecting (Context 0) (OpPut ''foo'' ''bar'' []) (NewKV rejecting (0, 0)) =
     (Return (Inl compacted),
      \<lparr>client = (1, 0), conn = ClientConn 0, remote = NewKVClient (ClientConn 0),
       events = [Lock, Read F_remote, Unlock,
         RPC (NewKVClient (ClientConn 0))
           (Req_Put \<lparr>Put_Key = ''foo'', Put_Value = ''bar'', Put_Lease = 0\<rparr>)
           (Some compacted)]\<rparr>)"
  "attempt rejecting (Context 0) (OpDelete ''foo'' []) (NewKV rejecting (0, 0)) =
     (Return (Inl compacted),
      \<lparr>client = (1, 0), conn = ClientConn 0, remote = NewKVClient (ClientConn 0),
       events = [Lock, Read F_remote, Unlock,
         RPC (NewKVClient (ClientConn 0))
           (Req_DeleteRange \<lparr>DeleteRange_Key = ''foo'', DeleteRange_RangeEnd = ''''\<rparr>)
           (Some compacted)]\<rparr>)"
  by (simp_all add: attempt_def rejecting_def OpGet_def OpPut_def OpDelete_def zeroOp_def
      applyOpts_def getRemote_eq emit_def)

theorem rpc_error_returned_at_once_witness:
  "(\<exists>s' rq. do rejecting (Context 0) (OpGet ''a'' [WithRange ''z'']) (NewKV rejecting (0, 0)) =
        Some (Return (None, Some compacted), s') \<and>
      events s' = [Lock, Read F_remote, Unlock,
        RPC (NewKVClient (ClientConn 0)) rq (Some compacted)] \<and>
      conn s' = ClientConn 0 \<and> remote s' = NewKVClient (ClientConn 0)) \<and>
   (\<exists>s' rq. do rejecting (Context 0) (OpPut ''foo'' ''bar'' []) (NewKV rejecting (0, 0)) =
        Some (Return (None, Some compacted), s') \<and>
      events s' = [Lock, Read F_remote, Unlock,
        RPC (NewKVClient (ClientConn 0)) rq (Some compacted)] \<and>
      conn s' = ClientConn 0 \<and> remote s' = NewKVClient (ClientConn 0)) \<and>
   (\<exists>s' rq. do rejecting (Context 0) (OpDelete ''foo'' []) (NewKV rejecting (0, 0)) =
        Some (Return (None, Some compacted), s') \<and>
      events s' = [Lock, Read F_remote, Unlock,
        RPC (NewKVClient (ClientConn 0)) rq (Some compacted)] \<and>
      conn s' = ClientConn 0 \<and> remote s' = NewKVClient (ClientConn 0)) \<and>
   (\<exists>s'. Compact rejecting (Context 0) 5 (NewKV rejecting (0, 0)) = (Some compacted, s') \<and>
      events s' = [Lock, Read F_remote, Unlock,
        RPC (NewKVClient (ClientConn 0)) (Req_Compact \<lparr>Compaction_Revision = 5\<rparr>)
          (Some compacted)] \<and>
      conn s' = ClientConn 0 \<and> remote s' = NewKVClient (ClientConn 0))"
proof -
  have r: "isRPCError rejecting compacted"
    by (simp add: rejecting_def)
  have c: "stub_Compact rejecting (remote (NewKV rejecting (0, 0))) (Context 0)
             \<lparr>Compaction_Revision = 5\<rparr> (client (NewKV rejecting (0, 0)))
           = (Inl compacted, (1, 0))"
    by (simp add: rejecting_def)
  have i: "events (NewKV rejecting (0, 0)) = []" "conn (NewKV rejecting (0, 0)) = ClientConn 0"
    "remote (NewKV rejecting (0, 0)) = NewKVClient (ClientConn 0)"
    by (simp_all add: rejecting_def)
  note t = rpc_error_returned_at_once [where env = rejecting and ctx = "Context 0"
      and s = "NewKV rejecting (0, 0)" and err = compacted]
  from t [THEN conjunct1, rule_format, OF conjI [OF attempt_rejecting(1) r]]
  have 1: "\<exists>s' rq. do rejecting (Context 0) (OpGet ''a'' [WithRange ''z'']) (NewKV rejecting (0, 0)) =
        Some (Return (None, Some compacted), s') \<and>
      events s' = [Lock, Read F_remote, Unlock,
        RPC (NewKVClient (ClientConn 0)) rq (Some compacted)] \<and>
      conn s' = ClientConn 0 \<and> remote s' = NewKVClient (ClientConn 0)"
    unfolding i by auto
  from t [THEN conjunct1, rule_format, OF conjI [OF attempt_rejecting(2) r]]
  have 2: "\<exists>s' rq. do rejecting (Context 0) (OpPut ''foo'' ''bar'' []) (NewKV rejecting (0, 0)) =
        Some (Return (None, Some compacted), s') \<and>
      events s' = [Lock, Read F_remote, Unlock,
        RPC (NewKVClient (ClientConn 0)) rq (Some compacted)] \<and>
      conn s' = ClientConn 0 \<and> remote s' = NewKVClient (ClientConn 0)"
    unfolding i by auto
  from t [THEN conjunct1, rule_format, OF conjI [OF attempt_rejecting(3) r]]
  have 3: "\<exists>s' rq. do rejecting (Context 0) (OpDelete ''foo'' []) (NewKV rejecting (0, 0)) =
        Some (Return (None, Some compacted), s') \<and>
      events s' = [Lock, Read F_remote, Unlock,
        RPC (NewKVClient (ClientConn 0)) rq (Some compacted)] \<and>
      conn s' = ClientConn 0 \<and> remote s' = NewKVClient (ClientConn 0)"
    unfolding i by auto
  from t [THEN conjunct2, rule_format, OF conjI [OF c r]]
  have 4: "\<exists>s'. Compact rejecting (Context 0) 5 (NewKV rejecting (0, 0)) = (Some compacted, s') \<and>
      events s' = [Lock, Read F_remote, Unlock,
        RPC (NewKVClient (ClientConn 0)) (Req_Compact \<lparr>Compaction_Revision = 5\<rparr>)
          (Some compacted)] \<and>
      conn s' = ClientConn 0 \<and> remote s' = NewKVClient (ClientConn 0)"
    unfolding i by auto
  from 1 2 3 4 show ?thesis by (intro conjI)
qed

section \<open>do: dispatch by kind\<close>

lemma wire_request_kind: "wire_request op = Some rq \<Longrightarrow> request_kind rq = Some (op_t op)"
  by (cases "op_t op") (auto simp: wire_request_def)

text \<open>A write never goes round the loop: \<^verbatim>\<open>do\<close> returns from its first iteration.\<close>

lemma do_write_returns:
  assumes "op_t op = tPut \<or> op_t op = tDeleteRange"
  shows "\<exists>x s'. do env ctx op s = Some (Return x, s')"
proof -
  from assms have k: "op_t op \<noteq> tTxn" "op_t op \<noteq> tRange" by auto
  from attempt_shape [OF k(1), of env ctx s] obtain res s1 where
    a: "attempt env ctx op s = (Return res, s1)" by blast
  show ?thesis
  proof (cases res)
    case (Inr ru)
    with a show ?thesis by (auto simp: do_success)
  next
    case (Inl err)
    with a k(2) show ?thesis
      by (cases "isRPCError env err") (auto simp: do_rpc_error do_write_transport)
  qed
qed

text \<open>
  Claim C5, as the code has it. For the kinds Range, Put and DeleteRange an iteration of
  \<^verbatim>\<open>do\<close> encodes the descriptor, invokes the RPC method of that kind once and does
  not panic; a call that returns does not return a panic, and a Put or DeleteRange call
  always returns. For the kind Txn \<^verbatim>\<open>do\<close> reaches the default branch of its switch:
  it panics with \<^verbatim>\<open>Unknown op\<close> and has made no RPC.
\<close>

theorem do_dispatch_by_kind:
  "(op_t op \<noteq> tTxn \<longrightarrow>
      (\<exists>res w rq. attempt env ctx op s =
          (Return res, s\<lparr>client := w, events := events s @
             [Lock, Read F_remote, Unlock, RPC (remote s) rq (err_of res)]\<rparr>) \<and>
        wire_request op = Some rq \<and> request_kind rq = Some (op_t op))) \<and>
   (op_t op \<noteq> tTxn \<and> do env ctx op s = Some (r, s') \<longrightarrow> (\<exists>x. r = Return x)) \<and>
   (op_t op = tPut \<or> op_t op = tDeleteRange \<longrightarrow>
      (\<exists>x s'. do env ctx op s = Some (Return x, s'))) \<and>
   (op_t op = tTxn \<longrightarrow> do env ctx op s = Some (Panic ''Unknown op'', s))"
proof (intro conjI impI)
  assume k: "op_t op \<noteq> tTxn"
  from attempt_shape [OF k, of env ctx s]
  show "\<exists>res w rq. attempt env ctx op s =
          (Return res, s\<lparr>client := w, events := events s @
             [Lock, Read F_remote, Unlock, RPC (remote s) rq (err_of res)]\<rparr>) \<and>
        wire_request op = Some rq \<and> request_kind rq = Some (op_t op)"
    by (blast intro: wire_request_kind)
next
  assume "op_t op \<noteq> tTxn \<and> do env ctx op s = Some (r, s')"
  then show "\<exists>x. r = Return x"
    using do_result_shape [of env ctx op s "(r, s')"] by auto
next
  assume "op_t op = tPut \<or> op_t op = tDeleteRange"
  then show "\<exists>x s'. do env ctx op s = Some (Return x, s')"
    by (rule do_write_returns)
next
  assume "op_t op = tTxn"
  then show "do env ctx op s = Some (Panic ''Unknown op'', s)"
    by (simp add: do_panic attempt_Txn)
qed

text \<open>
  The claim as the specification states it fails for Txn: on a descriptor of kind Txn
  \<^verbatim>\<open>do\<close> panics, with nothing in the log.
\<close>

theorem do_Txn_counterexample:
  "do (flaky 0) (Context 0) (zeroOp tTxn) (NewKV (flaky 0) (0, 0)) =
     Some (Panic ''Unknown op'',
           \<lparr>client = (0, 0), conn = ClientConn 0, remote = NewKVClient (ClientConn 0),
            events = []\<rparr>)"
  by (simp add: do_panic attempt_Txn zeroOp_def flaky_def)

lemma do_flaky0_Put:
  "do (flaky 0) (Context 0) (OpPut ''foo'' ''bar'' []) (NewKV (flaky 0) (0, 0)) =
     Some (Return (Some (ResponseUnion_ResponsePut (PutResponse 0)), None),
       \<lparr>client = (1, 0), conn = ClientConn 0, remote = NewKVClient (ClientConn 0),
        events = [Lock, Read F_remote, Unlock,
          RPC (NewKVClient (ClientConn 0))
            (Req_Put \<lparr>Put_Key = ''foo'', Put_Value = ''bar'', Put_Lease = 0\<rparr>) None]\<rparr>)"
  by (simp add: do.simps attempt_def flaky_def OpPut_def zeroOp_def applyOpts_def getRemote_eq
      emit_def)

theorem do_dispatch_by_kind_witness:
  "(\<exists>res w rq. attempt (flaky 0) (Context 0) (OpPut ''foo'' ''bar'' []) (NewKV (flaky 0) (0, 0)) =
       (Return res, (NewKV (flaky 0) (0, 0))\<lparr>client := w, events := events (NewKV (flaky 0) (0, 0)) @
          [Lock, Read F_remote, Unlock,
           RPC (remote (NewKV (flaky 0) (0, 0))) rq (err_of res)]\<rparr>) \<and>
     wire_request (OpPut ''foo'' ''bar'' []) = Some rq \<and>
     request_kind rq = Some (op_t (OpPut ''foo'' ''bar'' []))) \<and>
   (\<exists>x. Return (Some (ResponseUnion_ResponsePut (PutResponse 0)), None :: error option) =
      Return x) \<and>
   (\<exists>x s'. do (flaky 0) (Context 0) (OpPut ''foo'' ''bar'' []) (NewKV (flaky 0) (0, 0)) =
       Some (Return x, s')) \<and>
   do (flaky 0) (Context 0) (zeroOp tTxn) (NewKV (flaky 0) (0, 0)) =
     Some (Panic ''Unknown op'', NewKV (flaky 0) (0, 0))"
proof -
  have k: "op_t (OpPut ''foo'' ''bar'' []) \<noteq> tTxn"
    "op_t (OpPut ''foo'' ''bar'' []) = tPut \<or> op_t (OpPut ''foo'' ''bar'' []) = tDeleteRange"
    "op_t (zeroOp tTxn) = tTxn"
    by (simp_all add: zeroOp_def)
  note t = do_dispatch_by_kind [where env = "flaky 0" and ctx = "Context 0"
      and s = "NewKV (flaky 0) (0, 0)"]
  note p = t [where op = "OpPut ''foo'' ''bar'' []"]
  from p [THEN conjunct1, rule_format, OF k(1)]
       p [THEN conjunct2, THEN conjunct1, rule_format, OF conjI [OF k(1) do_flaky0_Put]]
       p [THEN conjunct2, THEN conjunct2, THEN conjunct1, rule_format, OF k(2)]
       t [where op = "zeroOp tTxn", THEN conjunct2, THEN conjunct2, THEN conjunct2,
          rule_format, OF k(3)]
  show ?thesis by (intro conjI)
qed

section \<open>do: the wire request\<close>


lemma do_flaky1_Get:
  "do (flaky 1) (Context 0) (OpGet ''a'' [WithRange ''z'']) (NewKV (flaky 1) (0, 0)) =
     Some (Return (Some (ResponseUnion_ResponseRange (RangeResponse 1)), None),
       \<lparr>client = (2, 1), conn = ClientConn 1, remote = NewKVClient (ClientConn 1),
        events =
          [Lock, Read F_remote, Unlock,
           RPC (NewKVClient (ClientConn 0))
             (Req_Range \<lparr>Range_Key = ''a'', Range_RangeEnd = ''z'', Range_Limit = 0,
                Range_Revision = 0, Range_SortOrder = 0, Range_SortTarget = 0\<rparr>)
             (Some (Error ''connection refused'')),
           Read F_conn,
           RetryConnection (ClientConn 0) (Error ''connection refused'') (Inr (ClientConn 1)),
           Lock, Write F_conn, Read F_conn, Write F_remote, Unlock,
           Lock, Read F_remote, Unlock,
           RPC (NewKVClient (ClientConn 1))
             (Req_Range \<lparr>Range_Key = ''a'', Range_RangeEnd = ''z'', Range_Limit = 0,
                Range_Revision = 0, Range_SortOrder = 0, Range_SortTarget = 0\<rparr>)
             None]\<rparr>)"
  by (simp add: do.simps attempt_def flaky_def OpGet_def zeroOp_def applyOpts_def getRemote_eq
      emit_def switchRemote_def unavailable_def)

lemma Op_fields [simp]:
  "op_key (OpPut ''foo'' ''bar'' []) = ''foo''"
  "op_val (OpPut ''foo'' ''bar'' []) = ''bar''"
  "op_leaseID (OpPut ''foo'' ''bar'' []) = 0"
  "op_key (OpGet ''a'' [WithRange ''z'', WithSort 1 2]) = ''a''"
  "op_end (OpGet ''a'' [WithRange ''z'', WithSort 1 2]) = ''z''"
  "op_limit (OpGet ''a'' [WithRange ''z'', WithSort 1 2]) = 0"
  "op_rev (OpGet ''a'' [WithRange ''z'', WithSort 1 2]) = 0"
  "op_sort (OpGet ''a'' [WithRange ''z'', WithSort 1 2]) = Some \<lparr>Target = 1, Order = 2\<rparr>"
  "op_key (OpDelete ''a'' [WithRange ''b'']) = ''a''"
  "op_end (OpDelete ''a'' [WithRange ''b'']) = ''b''"
  by (simp_all add: OpPut_def OpGet_def OpDelete_def zeroOp_def applyOpts_def)


section \<open>do on Range: the retry loop\<close>

text \<open>The three ways a Range call leaves the loop, read off the end of its log.\<close>

lemma do_Range_exit:
  assumes "do env ctx op s = Some y" and k: "op_t op = tRange"
  shows "(\<exists>stub rq resp. fst y = Return (Some (ResponseUnion_ResponseRange resp), None) \<and>
            last (events (snd y)) = RPC stub rq None) \<or>
         (\<exists>stub rq e. fst y = Return (None, Some e) \<and> isRPCError env e \<and>
            last (events (snd y)) = RPC stub rq (Some e)) \<or>
         (\<exists>c e nerr. fst y = Return (None, Some nerr) \<and> \<not> isRPCError env e \<and>
            last (events (snd y)) = RetryConnection c e (Inl nerr))"
  using assms(1)
proof (induction rule: do_returns_induct)
  case (panic s m s1)
  with k attempt_shape [of op env ctx s] show ?case by auto
next
  case (success s ru s1)
  obtain res w where st: "stub_Range env (remote s) ctx (wire_Range op) (client s) = (res, w)"
    by (cases "stub_Range env (remote s) ctx (wire_Range op) (client s)")
  from attempt_Range [OF k st] success show ?case
    by (cases res) auto
next
  case (rpc_error s err s1)
  obtain res w where st: "stub_Range env (remote s) ctx (wire_Range op) (client s) = (res, w)"
    by (cases "stub_Range env (remote s) ctx (wire_Range op) (client s)")
  from attempt_Range [OF k st] rpc_error show ?case
    by (cases res) auto
next
  case (write_error s err s1)
  with k show ?case by simp
next
  case (rotation_failed s err s1 nerr s2)
  obtain res w where rc: "retryConnection env (conn s1) err (client s1) = (res, w)"
    by (cases "retryConnection env (conn s1) err (client s1)")
  from rotation_failed rc show ?case
    by (cases res) (auto simp: switchRemote_fail switchRemote_ok)
next
  case (retry s err s1 s2 y)
  then show ?case by simp
qed

text \<open>
  After a transport failure and a rotation that succeeds, the loop goes round: the call
  continues as a call from the rotated state, whose next attempt goes to the stub of the
  new connection.
\<close>

lemma do_Range_again:
  assumes k: "op_t op = tRange"
    and a: "attempt env ctx op s = (Return (Inl err), s1)"
    and n: "\<not> isRPCError env err"
    and rc: "retryConnection env (conn s1) err (client s1) = (Inr newConn, w)"
  shows "\<exists>s2. switchRemote env err s1 = (None, s2) \<and>
           do env ctx op s = do env ctx op s2 \<and>
           conn s2 = newConn \<and> remote s2 = NewKVClient newConn \<and>
           (\<exists>res s3 rq. attempt env ctx op s2 = (Return res, s3) \<and>
              events s3 = events s2 @
                [Lock, Read F_remote, Unlock, RPC (NewKVClient newConn) rq (err_of res)])"
proof -
  let ?s2 = "s1\<lparr>client := w, conn := newConn, remote := NewKVClient newConn,
              events := events s1 @ [Read F_conn, RetryConnection (conn s1) err (Inr newConn),
                 Lock, Write F_conn, Read F_conn, Write F_remote, Unlock]\<rparr>"
  have sw: "switchRemote env err s1 = (None, ?s2)"
    by (rule switchRemote_ok [OF rc])
  have "do env ctx op s = do env ctx op ?s2"
    by (rule do_retry [OF a n k sw])
  moreover from k have "op_t op \<noteq> tTxn" by simp
  from attempt_shape [OF this, of env ctx ?s2]
  have "\<exists>res s3 rq. attempt env ctx op ?s2 = (Return res, s3) \<and>
              events s3 = events ?s2 @
                [Lock, Read F_remote, Unlock, RPC (NewKVClient newConn) rq (err_of res)]"
    by auto
  ultimately show ?thesis using sw
    by (intro exI [of _ ?s2]) simp
qed

text \<open>
  No bound on the retries: against collaborators whose first \<open>n\<close> RPCs fail at the
  transport, a Range call makes \<open>n + 1\<close> RPCs and returns the reply of the last.
\<close>

lemma do_flaky_from:
  assumes k: "op_t op = tRange"
  shows "client s = (i, j) \<Longrightarrow> i \<le> n \<Longrightarrow> d = n - i \<Longrightarrow>
     \<exists>s'. do (flaky n) ctx op s =
             Some (Return (Some (ResponseUnion_ResponseRange (RangeResponse n)), None), s') \<and>
          rpc_calls (events s') = rpc_calls (events s) + Suc (n - i)"
proof (induction d arbitrary: s i j)
  case 0
  then have i: "i = n" by simp
  have st: "stub_Range (flaky n) (remote s) ctx (wire_Range op) (client s) =
      (Inr (RangeResponse n), (Suc n, j))"
    using 0(1) i by (simp add: flaky_def)
  from attempt_Range [OF k st] show ?case
    using i by (auto simp: do_success)
next
  case (Suc d)
  then have i: "i < n" by simp
  have st: "stub_Range (flaky n) (remote s) ctx (wire_Range op) (client s) =
      (Inl unavailable, (Suc i, j))"
    using Suc(2) i by (simp add: flaky_def)
  let ?s1 = "s\<lparr>client := (Suc i, j), events := events s @
         [Lock, Read F_remote, Unlock, RPC (remote s) (Req_Range (wire_Range op))
            (Some unavailable)]\<rparr>"
  from attempt_Range [OF k st]
  have a: "attempt (flaky n) ctx op s = (Return (Inl unavailable), ?s1)" by simp
  have n: "\<not> isRPCError (flaky n) unavailable" by (simp add: flaky_def)
  have rc: "retryConnection (flaky n) (conn ?s1) unavailable (client ?s1) =
      (Inr (ClientConn (Suc j)), (Suc i, Suc j))"
    by (simp add: flaky_def)
  let ?s2 = "?s1\<lparr>client := (Suc i, Suc j), conn := ClientConn (Suc j),
      remote := NewKVClient (ClientConn (Suc j)),
      events := events ?s1 @
        [Read F_conn, RetryConnection (conn ?s1) unavailable (Inr (ClientConn (Suc j))),
         Lock, Write F_conn, Read F_conn, Write F_remote, Unlock]\<rparr>"
  have sw: "switchRemote (flaky n) unavailable ?s1 = (None, ?s2)"
    by (rule switchRemote_ok [OF rc])
  have again: "do (flaky n) ctx op s = do (flaky n) ctx op ?s2"
    by (rule do_retry [OF a n k sw])
  have "client ?s2 = (Suc i, Suc j)" "Suc i \<le> n" "d = n - Suc i"
    using i Suc(4) by simp_all
  from Suc.IH [OF this] obtain s' where
    s': "do (flaky n) ctx op ?s2 =
           Some (Return (Some (ResponseUnion_ResponseRange (RangeResponse n)), None), s')"
        "rpc_calls (events s') = rpc_calls (events ?s2) + Suc (n - Suc i)"
    by blast
  from s'(2) i have "rpc_calls (events s') = rpc_calls (events s) + Suc (n - i)"
    by simp
  with s'(1) again show ?case by auto
qed

lemma do_flaky:
  assumes "op_t op = tRange"
  shows "\<exists>s'. do (flaky n) ctx op (NewKV (flaky n) (0, 0)) =
             Some (Return (Some (ResponseUnion_ResponseRange (RangeResponse n)), None), s') \<and>
          rpc_calls (events s') = Suc n"
  using do_flaky_from [OF assms, of "NewKV (flaky n) (0, 0)" 0 0 n n ctx]
  by (simp add: flaky_def)

text \<open>
  And no exit but the three: while every RPC fails at the transport and every rotation
  succeeds, a Range call never returns.
\<close>

lemma do_blackhole_no_return:
  assumes "do blackhole ctx op s = Some y" and k: "op_t op = tRange"
  shows False
  using assms(1)
proof (induction rule: do_returns_induct)
  case (panic s m s1)
  with k attempt_shape [of op blackhole ctx s] show ?case by auto
next
  case (success s ru s1)
  have "stub_Range blackhole (remote s) ctx (wire_Range op) (client s) =
      (Inl unavailable, (Suc (fst (client s)), snd (client s)))"
    by (simp add: blackhole_def)
  from attempt_Range [OF k this] success show ?case by simp
next
  case (rpc_error s err s1)
  have "stub_Range blackhole (remote s) ctx (wire_Range op) (client s) =
      (Inl unavailable, (Suc (fst (client s)), snd (client s)))"
    by (simp add: blackhole_def)
  from attempt_Range [OF k this] rpc_error show ?case by (simp add: blackhole_def)
next
  case (write_error s err s1)
  with k show ?case by simp
next
  case (rotation_failed s err s1 nerr s2)
  have "retryConnection blackhole (conn s1) err (client s1) =
      (Inr (ClientConn (Suc (snd (client s1)))), (fst (client s1), Suc (snd (client s1))))"
    by (simp add: blackhole_def)
  from switchRemote_ok [OF this] rotation_failed show ?case by simp
next
  case (retry s err s1 s2 y)
  then show ?case by simp
qed

lemma do_blackhole: "op_t op = tRange \<Longrightarrow> do blackhole ctx op s = None"
  using do_blackhole_no_return [of ctx op s] by (cases "do blackhole ctx op s") auto


lemma attempt_flaky1:
  "attempt (flaky 1) (Context 0) (OpGet ''a'' [WithRange ''z'']) (NewKV (flaky 1) (0, 0)) =
     (Return (Inl unavailable),
      \<lparr>client = (1, 0), conn = ClientConn 0, remote = NewKVClient (ClientConn 0),
       events = [Lock, Read F_remote, Unlock,
         RPC (NewKVClient (ClientConn 0))
           (Req_Range \<lparr>Range_Key = ''a'', Range_RangeEnd = ''z'', Range_Limit = 0,
              Range_Revision = 0, Range_SortOrder = 0, Range_SortTarget = 0\<rparr>)
           (Some unavailable)]\<rparr>)"
  by (simp add: attempt_def flaky_def OpGet_def zeroOp_def applyOpts_def getRemote_eq emit_def)


section \<open>The lock discipline\<close>

text \<open>
  Claim C4. The struct declares that \<^verbatim>\<open>mu\<close> guards all fields, and the claim is that
  every read and write of the pair goes through that lock. \<^verbatim>\<open>getRemote\<close> keeps to
  it, and so do the two writes of \<^verbatim>\<open>switchRemote\<close>; no call to the network is made
  with the lock held. But \<^verbatim>\<open>switchRemote\<close> starts by reading \<^verbatim>\<open>kv.conn\<close>, to
  pass it to \<^verbatim>\<open>retryConnection\<close>, before it takes the lock: its first event is an
  unguarded read of the connection handle, whatever the state and the collaborators.
\<close>

theorem switchRemote_reads_conn_unlocked:
  "hd (new_events s (snd (switchRemote env prevErr s))) = Read F_conn \<and>
   \<not> guarded False (new_events s (snd (switchRemote env prevErr s))) \<and>
   guarded False (tl (tl (new_events s (snd (switchRemote env prevErr s))))) \<and>
   io_unlocked False (new_events s (snd (switchRemote env prevErr s))) \<and>
   guarded False (new_events s (snd (getRemote s))) \<and>
   io_unlocked False (new_events s (snd (getRemote s)))"
proof -
  obtain res w where rc: "retryConnection env (conn s) prevErr (client s) = (res, w)"
    by (cases "retryConnection env (conn s) prevErr (client s)")
  show ?thesis
  proof (cases res)
    case (Inl err)
    with rc show ?thesis
      by (simp add: switchRemote_fail getRemote_eq new_events_def)
  next
    case (Inr newConn)
    with rc show ?thesis
      by (simp add: switchRemote_ok getRemote_eq new_events_def)
  qed
qed

section \<open>Put, Get and Delete: the typed results\<close>

lemma Put_eq:
  "do env ctx (OpPut key val opts) s = Some (Return (Some ru, None), s') \<Longrightarrow>
   Put env ctx key val opts s = Some (Return (GetResponsePut (Some ru), None), s')"
  "do env ctx (OpPut key val opts) s = Some (Return (None, Some e), s') \<Longrightarrow>
   Put env ctx key val opts s = Some (Return (None, Some e), s')"
  by (simp_all add: Put_def)

lemma Get_eq:
  "do env ctx (OpGet key opts) s = Some (Return (Some ru, None), s') \<Longrightarrow>
   Get env ctx key opts s = Some (Return (GetResponseRange (Some ru), None), s')"
  "do env ctx (OpGet key opts) s = Some (Return (None, Some e), s') \<Longrightarrow>
   Get env ctx key opts s = Some (Return (None, Some e), s')"
  by (simp_all add: Get_def)

lemma Delete_eq:
  "do env ctx (OpDelete key opts) s = Some (Return (Some ru, None), s') \<Longrightarrow>
   Delete env ctx key opts s = Some (Return (GetResponseDeleteRange (Some ru), None), s')"
  "do env ctx (OpDelete key opts) s = Some (Return (None, Some e), s') \<Longrightarrow>
   Delete env ctx key opts s = Some (Return (None, Some e), s')"
  by (simp_all add: Delete_def)

lemma response_kind_cases:
  "response_kind ru = tPut \<Longrightarrow> \<exists>x. ru = ResponseUnion_ResponsePut x"
  "response_kind ru = tRange \<Longrightarrow> \<exists>x. ru = ResponseUnion_ResponseRange x"
  "response_kind ru = tDeleteRange \<Longrightarrow> \<exists>x. ru = ResponseUnion_ResponseDeleteRange x"
  by (cases ru; simp)+

text \<open>
  Claim C10. \<^verbatim>\<open>Put\<close>, \<^verbatim>\<open>Get\<close> and \<^verbatim>\<open>Delete\<close> return exactly one of the two
  results: either the error \<^verbatim>\<open>do\<close> returned, with a nil reply, or a nil error with
  the payload of the variant of their own kind, which is the reply \<^verbatim>\<open>do\<close> wrapped.
  \<^verbatim>\<open>Put\<close> and \<^verbatim>\<open>Delete\<close> always return. \<^verbatim>\<open>Get\<close> returns exactly when
  its call of \<^verbatim>\<open>do\<close> returns: whenever \<^verbatim>\<open>do\<close> returns an error \<^verbatim>\<open>Get\<close>
  returns nil and that error, whenever \<^verbatim>\<open>do\<close> returns a reply it is of the Range
  variant and \<^verbatim>\<open>Get\<close> returns its payload and a nil error, and whatever \<^verbatim>\<open>Get\<close>
  returns it returns in one of these two ways.
\<close>

theorem typed_results:
  "(\<exists>s'. (\<exists>e. Put env ctx key val opts s = Some (Return (None, Some e), s') \<and>
             do env ctx (OpPut key val opts) s = Some (Return (None, Some e), s')) \<or>
         (\<exists>resp. Put env ctx key val opts s = Some (Return (Some resp, None), s') \<and>
             do env ctx (OpPut key val opts) s =
               Some (Return (Some (ResponseUnion_ResponsePut resp), None), s'))) \<and>
   (\<exists>s'. (\<exists>e. Delete env ctx key opts s = Some (Return (None, Some e), s') \<and>
             do env ctx (OpDelete key opts) s = Some (Return (None, Some e), s')) \<or>
         (\<exists>resp. Delete env ctx key opts s = Some (Return (Some resp, None), s') \<and>
             do env ctx (OpDelete key opts) s =
               Some (Return (Some (ResponseUnion_ResponseDeleteRange resp), None), s'))) \<and>
   (do env ctx (OpGet key opts) s = Some (r0, s0) \<longrightarrow>
      (\<exists>e. r0 = Return (None, Some e) \<and>
           Get env ctx key opts s = Some (Return (None, Some e), s0)) \<or>
      (\<exists>resp. r0 = Return (Some (ResponseUnion_ResponseRange resp), None) \<and>
           Get env ctx key opts s = Some (Return (Some resp, None), s0))) \<and>
   (Get env ctx key opts s = Some (r, s') \<longrightarrow>
      (\<exists>e. r = Return (None, Some e) \<and>
           do env ctx (OpGet key opts) s = Some (Return (None, Some e), s')) \<or>
      (\<exists>resp. r = Return (Some resp, None) \<and>
           do env ctx (OpGet key opts) s =
             Some (Return (Some (ResponseUnion_ResponseRange resp), None), s'))) \<and>
   ((Get env ctx key opts s = None) = (do env ctx (OpGet key opts) s = None))"
proof (intro conjI impI)
  from do_write_returns [of "OpPut key val opts" env ctx s]
  obtain x s1 where d: "do env ctx (OpPut key val opts) s = Some (Return x, s1)"
    by auto
  from do_result_shape [OF d] consider
    e where "x = (None, Some e)" | ru where "x = (Some ru, None)" "response_kind ru = tPut"
    by auto
  then show "\<exists>s'. (\<exists>e. Put env ctx key val opts s = Some (Return (None, Some e), s') \<and>
             do env ctx (OpPut key val opts) s = Some (Return (None, Some e), s')) \<or>
         (\<exists>resp. Put env ctx key val opts s = Some (Return (Some resp, None), s') \<and>
             do env ctx (OpPut key val opts) s =
               Some (Return (Some (ResponseUnion_ResponsePut resp), None), s'))"
  proof cases
    case 1
    with d Put_eq(2) [of env ctx key val opts s e s1] show ?thesis by auto
  next
    case 2
    from 2(2) obtain resp where "ru = ResponseUnion_ResponsePut resp"
      using response_kind_cases(1) by blast
    with 2(1) d Put_eq(1) [of env ctx key val opts s ru s1] show ?thesis by auto
  qed
next
  from do_write_returns [of "OpDelete key opts" env ctx s]
  obtain x s1 where d: "do env ctx (OpDelete key opts) s = Some (Return x, s1)"
    by auto
  from do_result_shape [OF d] consider
    e where "x = (None, Some e)"
    | ru where "x = (Some ru, None)" "response_kind ru = tDeleteRange"
    by auto
  then show "\<exists>s'. (\<exists>e. Delete env ctx key opts s = Some (Return (None, Some e), s') \<and>
             do env ctx (OpDelete key opts) s = Some (Return (None, Some e), s')) \<or>
         (\<exists>resp. Delete env ctx key opts s = Some (Return (Some resp, None), s') \<and>
             do env ctx (OpDelete key opts) s =
               Some (Return (Some (ResponseUnion_ResponseDeleteRange resp), None), s'))"
  proof cases
    case 1
    with d Delete_eq(2) [of env ctx key opts s e s1] show ?thesis by auto
  next
    case 2
    from 2(2) obtain resp where "ru = ResponseUnion_ResponseDeleteRange resp"
      using response_kind_cases(3) by blast
    with 2(1) d Delete_eq(1) [of env ctx key opts s ru s1] show ?thesis by auto
  qed
next
  assume d: "do env ctx (OpGet key opts) s = Some (r0, s0)"
  from do_result_shape [OF d] consider
    e where "r0 = Return (None, Some e)"
    | ru where "r0 = Return (Some ru, None)" "response_kind ru = tRange"
    by auto
  then show "(\<exists>e. r0 = Return (None, Some e) \<and>
           Get env ctx key opts s = Some (Return (None, Some e), s0)) \<or>
      (\<exists>resp. r0 = Return (Some (ResponseUnion_ResponseRange resp), None) \<and>
           Get env ctx key opts s = Some (Return (Some resp, None), s0))"
  proof cases
    case 1
    with d Get_eq(2) [of env ctx key opts s e s0] show ?thesis by simp
  next
    case 2
    from 2(2) obtain resp where "ru = ResponseUnion_ResponseRange resp"
      using response_kind_cases(2) by blast
    with 2(1) d Get_eq(1) [of env ctx key opts s ru s0] show ?thesis by simp
  qed
next
  assume g: "Get env ctx key opts s = Some (r, s')"
  then obtain y where d: "do env ctx (OpGet key opts) s = Some y"
    by (cases "do env ctx (OpGet key opts) s") (auto simp: Get_def)
  from do_result_shape [OF d] consider
    e where "fst y = Return (None, Some e)"
    | ru where "fst y = Return (Some ru, None)" "response_kind ru = tRange"
    by auto
  then show "(\<exists>e. r = Return (None, Some e) \<and>
           do env ctx (OpGet key opts) s = Some (Return (None, Some e), s')) \<or>
      (\<exists>resp. r = Return (Some resp, None) \<and>
           do env ctx (OpGet key opts) s =
             Some (Return (Some (ResponseUnion_ResponseRange resp), None), s'))"
  proof cases
    case 1
    then have "y = (Return (None, Some e), snd y)" by (cases y) simp
    with d have d': "do env ctx (OpGet key opts) s = Some (Return (None, Some e), snd y)"
      by simp
    from Get_eq(2) [OF d'] g d' show ?thesis by simp
  next
    case 2
    from 2(2) obtain resp where ru: "ru = ResponseUnion_ResponseRange resp"
      using response_kind_cases(2) by blast
    from 2(1) have "y = (Return (Some ru, None), snd y)" by (cases y) simp
    with d have d': "do env ctx (OpGet key opts) s = Some (Return (Some ru, None), snd y)"
      by simp
    from Get_eq(1) [OF d'] g d' ru show ?thesis by simp
  qed
next
  show "(Get env ctx key opts s = None) = (do env ctx (OpGet key opts) s = None)"
    by (auto simp: Get_def split: option.splits prod.splits outcome.splits)
qed

lemma do_rejecting_Get:
  "do rejecting (Context 0) (OpGet ''a'' [WithRange ''z'']) (NewKV rejecting (0, 0)) =
     Some (Return (None, Some compacted),
      \<lparr>client = (1, 0), conn = ClientConn 0, remote = NewKVClient (ClientConn 0),
       events = [Lock, Read F_remote, Unlock,
         RPC (NewKVClient (ClientConn 0))
           (Req_Range \<lparr>Range_Key = ''a'', Range_RangeEnd = ''z'', Range_Limit = 0,
              Range_Revision = 0, Range_SortOrder = 0, Range_SortTarget = 0\<rparr>)
           (Some compacted)]\<rparr>)"
  by (rule do_rpc_error [OF attempt_rejecting(1)]) (simp add: rejecting_def)

lemma do_rejecting_Delete:
  "do rejecting (Context 0) (OpDelete ''foo'' []) (NewKV rejecting (0, 0)) =
     Some (Return (None, Some compacted),
      \<lparr>client = (1, 0), conn = ClientConn 0, remote = NewKVClient (ClientConn 0),
       events = [Lock, Read F_remote, Unlock,
         RPC (NewKVClient (ClientConn 0))
           (Req_DeleteRange \<lparr>DeleteRange_Key = ''foo'', DeleteRange_RangeEnd = ''''\<rparr>)
           (Some compacted)]\<rparr>)"
  by (rule do_rpc_error [OF attempt_rejecting(3)]) (simp add: rejecting_def)

theorem typed_results_witness:
  "Put (flaky 0) (Context 0) ''foo'' ''bar'' [] (NewKV (flaky 0) (0, 0)) =
     Some (Return (Some (PutResponse 0), None),
       \<lparr>client = (1, 0), conn = ClientConn 0, remote = NewKVClient (ClientConn 0),
        events = [Lock, Read F_remote, Unlock,
          RPC (NewKVClient (ClientConn 0))
            (Req_Put \<lparr>Put_Key = ''foo'', Put_Value = ''bar'', Put_Lease = 0\<rparr>) None]\<rparr>) \<and>
   Delete rejecting (Context 0) ''foo'' [] (NewKV rejecting (0, 0)) =
     Some (Return (None, Some compacted),
      \<lparr>client = (1, 0), conn = ClientConn 0, remote = NewKVClient (ClientConn 0),
       events = [Lock, Read F_remote, Unlock,
         RPC (NewKVClient (ClientConn 0))
           (Req_DeleteRange \<lparr>DeleteRange_Key = ''foo'', DeleteRange_RangeEnd = ''''\<rparr>)
           (Some compacted)]\<rparr>) \<and>
   Get (flaky 1) (Context 0) ''a'' [WithRange ''z''] (NewKV (flaky 1) (0, 0)) =
     Some (Return (Some (RangeResponse 1), None),
       \<lparr>client = (2, 1), conn = ClientConn 1, remote = NewKVClient (ClientConn 1),
        events =
          [Lock, Read F_remote, Unlock,
           RPC (NewKVClient (ClientConn 0))
             (Req_Range \<lparr>Range_Key = ''a'', Range_RangeEnd = ''z'', Range_Limit = 0,
                Range_Revision = 0, Range_SortOrder = 0, Range_SortTarget = 0\<rparr>)
             (Some (Error ''connection refused'')),
           Read F_conn,
           RetryConnection (ClientConn 0) (Error ''connection refused'') (Inr (ClientConn 1)),
           Lock, Write F_conn, Read F_conn, Write F_remote, Unlock,
           Lock, Read F_remote, Unlock,
           RPC (NewKVClient (ClientConn 1))
             (Req_Range \<lparr>Range_Key = ''a'', Range_RangeEnd = ''z'', Range_Limit = 0,
                Range_Revision = 0, Range_SortOrder = 0, Range_SortTarget = 0\<rparr>)
             None]\<rparr>) \<and>
   Get rejecting (Context 0) ''a'' [WithRange ''z''] (NewKV rejecting (0, 0)) =
     Some (Return (None, Some compacted),
      \<lparr>client = (1, 0), conn = ClientConn 0, remote = NewKVClient (ClientConn 0),
       events = [Lock, Read F_remote, Unlock,
         RPC (NewKVClient (ClientConn 0))
           (Req_Range \<lparr>Range_Key = ''a'', Range_RangeEnd = ''z'', Range_Limit = 0,
              Range_Revision = 0, Range_SortOrder = 0, Range_SortTarget = 0\<rparr>)
           (Some compacted)]\<rparr>) \<and>
   (\<exists>resp. do (flaky 1) (Context 0) (OpGet ''a'' [WithRange ''z'']) (NewKV (flaky 1) (0, 0)) =
      Some (Return (Some (ResponseUnion_ResponseRange resp), None),
       \<lparr>client = (2, 1), conn = ClientConn 1, remote = NewKVClient (ClientConn 1),
        events =
          [Lock, Read F_remote, Unlock,
           RPC (NewKVClient (ClientConn 0))
             (Req_Range \<lparr>Range_Key = ''a'', Range_RangeEnd = ''z'', Range_Limit = 0,
                Range_Revision = 0, Range_SortOrder = 0, Range_SortTarget = 0\<rparr>)
             (Some (Error ''connection refused'')),
           Read F_conn,
           RetryConnection (ClientConn 0) (Error ''connection refused'') (Inr (ClientConn 1)),
           Lock, Write F_conn, Read F_conn, Write F_remote, Unlock,
           Lock, Read F_remote, Unlock,
           RPC (NewKVClient (ClientConn 1))
             (Req_Range \<lparr>Range_Key = ''a'', Range_RangeEnd = ''z'', Range_Limit = 0,
                Range_Revision = 0, Range_SortOrder = 0, Range_SortTarget = 0\<rparr>)
             None]\<rparr>)) \<and>
   Get blackhole (Context 0) ''a'' [WithRange ''z''] (NewKV blackhole (0, 0)) = None"
proof -
  note p = typed_results [where env = "flaky 0" and ctx = "Context 0" and key = "''foo''"
      and val = "''bar''" and opts = "[]" and s = "NewKV (flaky 0) (0, 0)", THEN conjunct1]
  note dl = typed_results [where env = rejecting and ctx = "Context 0" and key = "''foo''"
      and opts = "[]" and s = "NewKV rejecting (0, 0)", THEN conjunct2, THEN conjunct1]
  note g1 = typed_results [where env = "flaky 1" and s = "NewKV (flaky 1) (0, 0)"
      and ctx = "Context 0" and key = "''a''" and opts = "[WithRange ''z'']",
      THEN conjunct2, THEN conjunct2]
  note gr = typed_results [where env = rejecting and s = "NewKV rejecting (0, 0)"
      and ctx = "Context 0" and key = "''a''" and opts = "[WithRange ''z'']",
      THEN conjunct2, THEN conjunct2]
  note gb = typed_results [where env = blackhole and s = "NewKV blackhole (0, 0)"
      and ctx = "Context 0" and key = "''a''" and opts = "[WithRange ''z'']",
      THEN conjunct2, THEN conjunct2]
  from p do_flaky0_Put
  have 1: "Put (flaky 0) (Context 0) ''foo'' ''bar'' [] (NewKV (flaky 0) (0, 0)) =
     Some (Return (Some (PutResponse 0), None),
       \<lparr>client = (1, 0), conn = ClientConn 0, remote = NewKVClient (ClientConn 0),
        events = [Lock, Read F_remote, Unlock,
          RPC (NewKVClient (ClientConn 0))
            (Req_Put \<lparr>Put_Key = ''foo'', Put_Value = ''bar'', Put_Lease = 0\<rparr>) None]\<rparr>)"
    by auto
  from dl do_rejecting_Delete
  have 2: "Delete rejecting (Context 0) ''foo'' [] (NewKV rejecting (0, 0)) =
     Some (Return (None, Some compacted),
      \<lparr>client = (1, 0), conn = ClientConn 0, remote = NewKVClient (ClientConn 0),
       events = [Lock, Read F_remote, Unlock,
         RPC (NewKVClient (ClientConn 0))
           (Req_DeleteRange \<lparr>DeleteRange_Key = ''foo'', DeleteRange_RangeEnd = ''''\<rparr>)
           (Some compacted)]\<rparr>)"
    by auto
  from g1 [THEN conjunct1, rule_format, OF do_flaky1_Get]
  have 3: "Get (flaky 1) (Context 0) ''a'' [WithRange ''z''] (NewKV (flaky 1) (0, 0)) =
     Some (Return (Some (RangeResponse 1), None),
       \<lparr>client = (2, 1), conn = ClientConn 1, remote = NewKVClient (ClientConn 1),
        events =
          [Lock, Read F_remote, Unlock,
           RPC (NewKVClient (ClientConn 0))
             (Req_Range \<lparr>Range_Key = ''a'', Range_RangeEnd = ''z'', Range_Limit = 0,
                Range_Revision = 0, Range_SortOrder = 0, Range_SortTarget = 0\<rparr>)
             (Some (Error ''connection refused'')),
           Read F_conn,
           RetryConnection (ClientConn 0) (Error ''connection refused'') (Inr (ClientConn 1)),
           Lock, Write F_conn, Read F_conn, Write F_remote, Unlock,
           Lock, Read F_remote, Unlock,
           RPC (NewKVClient (ClientConn 1))
             (Req_Range \<lparr>Range_Key = ''a'', Range_RangeEnd = ''z'', Range_Limit = 0,
                Range_Revision = 0, Range_SortOrder = 0, Range_SortTarget = 0\<rparr>)
             None]\<rparr>)"
    by auto
  from gr [THEN conjunct1, rule_format, OF do_rejecting_Get]
  have 4: "Get rejecting (Context 0) ''a'' [WithRange ''z''] (NewKV rejecting (0, 0)) =
     Some (Return (None, Some compacted),
      \<lparr>client = (1, 0), conn = ClientConn 0, remote = NewKVClient (ClientConn 0),
       events = [Lock, Read F_remote, Unlock,
         RPC (NewKVClient (ClientConn 0))
           (Req_Range \<lparr>Range_Key = ''a'', Range_RangeEnd = ''z'', Range_Limit = 0,
              Range_Revision = 0, Range_SortOrder = 0, Range_SortTarget = 0\<rparr>)
           (Some compacted)]\<rparr>)"
    by auto
  from g1 [THEN conjunct2, THEN conjunct1, rule_format, OF 3]
  have 5: "\<exists>resp. do (flaky 1) (Context 0) (OpGet ''a'' [WithRange ''z''])
        (NewKV (flaky 1) (0, 0)) =
      Some (Return (Some (ResponseUnion_ResponseRange resp), None),
       \<lparr>client = (2, 1), conn = ClientConn 1, remote = NewKVClient (ClientConn 1),
        events =
          [Lock, Read F_remote, Unlock,
           RPC (NewKVClient (ClientConn 0))
             (Req_Range \<lparr>Range_Key = ''a'', Range_RangeEnd = ''z'', Range_Limit = 0,
                Range_Revision = 0, Range_SortOrder = 0, Range_SortTarget = 0\<rparr>)
             (Some (Error ''connection refused'')),
           Read F_conn,
           RetryConnection (ClientConn 0) (Error ''connection refused'') (Inr (ClientConn 1)),
           Lock, Write F_conn, Read F_conn, Write F_remote, Unlock,
           Lock, Read F_remote, Unlock,
           RPC (NewKVClient (ClientConn 1))
             (Req_Range \<lparr>Range_Key = ''a'', Range_RangeEnd = ''z'', Range_Limit = 0,
                Range_Revision = 0, Range_SortOrder = 0, Range_SortTarget = 0\<rparr>)
             None]\<rparr>)"
    by auto
  have "do blackhole (Context 0) (OpGet ''a'' [WithRange ''z'']) (NewKV blackhole (0, 0)) = None"
    by (rule do_blackhole) simp
  with gb [THEN conjunct2, THEN conjunct2]
  have 6: "Get blackhole (Context 0) ''a'' [WithRange ''z''] (NewKV blackhole (0, 0)) = None"
    by simp
  from 1 2 3 4 5 6 show ?thesis by (intro conjI)
qed

end
